theory Spec2Isabelle
  imports Complex_Main "HOL-Library.Sublist" "HOL-Library.Monad_Syntax"
begin

section \<open>Text-to-sketch rendering core of \<^verbatim>\<open>main.py\<close>\<close>

text \<open>
  The development embeds the functions \<^verbatim>\<open>rng\<close>, \<^verbatim>\<open>jitter\<close>, \<^verbatim>\<open>rough_line\<close>,
  \<^verbatim>\<open>rough_rect\<close>, \<^verbatim>\<open>rough_circle\<close>, \<^verbatim>\<open>text_el\<close>, the table \<^verbatim>\<open>THEMES\<close> and
  \<^verbatim>\<open>generate_sketch_svg\<close> of \<^verbatim>\<open>src/main.py\<close> (lines 85 to 250).

  Conventions of the embedding:
  \<^item> a Python \<^verbatim>\<open>str\<close> is a \<^typ>\<open>string\<close>; one \<^typ>\<open>char\<close> stands for one code point
    in the range 0 to 255 (Latin-1), so \<^verbatim>\<open>prompt[:80]\<close> is \<open>take 80 prompt\<close>;
  \<^item> a Python \<^verbatim>\<open>int\<close> is an \<^typ>\<open>int\<close> (unbounded);
  \<^item> a Python \<^verbatim>\<open>float\<close> is a value of an arbitrary type \<open>'f\<close> that carries
    \<open>+\<close>, \<open>-\<close>, \<open>*\<close> and \<open>/\<close> as bare operations: no law of arithmetic is assumed for
    them, so whatever is proved holds for IEEE doubles as for any other carrier;
  \<^item> what the interpreter and its standard library supply (the built-in \<^verbatim>\<open>hash\<close>,
    \<^verbatim>\<open>random.Random\<close>, rounding to a double, \<^verbatim>\<open>math.radians\<close>, \<^verbatim>\<open>math.cos\<close>,
    \<^verbatim>\<open>math.sin\<close>, the format \<^verbatim>\<open>.1f\<close>) is a parameter of every function: the record
    \<open>runtime\<close>;
  \<^item> a call that raises returns \<open>None\<close>. The exceptions reachable in the core are the
    \<^verbatim>\<open>OverflowError\<close> of converting an \<^verbatim>\<open>int\<close> to a \<^verbatim>\<open>float\<close> and of a true
    division of two \<^verbatim>\<open>int\<close>s whose quotient is beyond the doubles;
  \<^item> the generator \<^verbatim>\<open>rnd\<close> is mutable in the source; here each function that draws
    from it takes the generator's state and returns the new one.
\<close>

subsection \<open>Strings\<close>

definition nl :: string where
  "nl = [CHR 0x0A]"

text \<open>\<^verbatim>\<open>sep.join(xs)\<close>\<close>

fun join :: "string \<Rightarrow> string list \<Rightarrow> string" where
  "join sep [] = []"
| "join sep [x] = x"
| "join sep (x # x' # xs) = x @ sep @ join sep (x' # xs)"

text \<open>
  \<^verbatim>\<open>str.lower()\<close> on the code points 0 to 255: the letters A to Z, and the
  capital letters U+00C0 to U+00DE other than the multiplication sign U+00D7, move up by 32.
\<close>

definition lower_char :: "char \<Rightarrow> char" where
  "lower_char c =
     (let n = (of_char c :: nat) in
      if (65 \<le> n \<and> n \<le> 90) \<or> (192 \<le> n \<and> n \<le> 222 \<and> n \<noteq> 215)
      then char_of (n + 32) else c)"

definition lower :: "string \<Rightarrow> string" where
  "lower s = map lower_char s"

text \<open>\<^verbatim>\<open>k in p\<close> on two strings: \<open>k\<close> occurs in \<open>p\<close> as a contiguous substring.\<close>

fun contains :: "string \<Rightarrow> string \<Rightarrow> bool" where
  "contains k [] = (k = [])"
| "contains k (c # cs) = (prefix k (c # cs) \<or> contains k cs)"

text \<open>\<^verbatim>\<open>any(k in p for k in ks)\<close>\<close>

definition any_in :: "string list \<Rightarrow> string \<Rightarrow> bool" where
  "any_in ks p = list_ex (\<lambda>k. contains k p) ks"

text \<open>\<^verbatim>\<open>s.replace(old, new)\<close> for a pattern \<open>old\<close> of one character.\<close>

definition replace_char :: "char \<Rightarrow> string \<Rightarrow> string \<Rightarrow> string" where
  "replace_char old new s = concat (map (\<lambda>c. if c = old then new else [c]) s)"

text \<open>\<^verbatim>\<open>str(n)\<close> of an \<^verbatim>\<open>int\<close>, as an f-string field \<^verbatim>\<open>{n}\<close> prints it.\<close>

definition digit_char :: "nat \<Rightarrow> char" where
  "digit_char d = ''0123456789'' ! d"

fun str_nat :: "nat \<Rightarrow> string" where
  "str_nat n = (if n < 10 then [digit_char n] else str_nat (n div 10) @ [digit_char (n mod 10)])"

definition str_int :: "int \<Rightarrow> string" where
  "str_int i = (if i < 0 then CHR ''-'' # str_nat (nat (- i)) else str_nat (nat i))"

text \<open>
  An f-string field \<^verbatim>\<open>{n}\<close> whose value comes from the caller: \<^verbatim>\<open>str(n)\<close> raises
  \<^verbatim>\<open>ValueError\<close> when \<open>n\<close> has more than 4300 decimal digits, the interpreter's default
  limit on the conversion of an \<^verbatim>\<open>int\<close> to a string.
\<close>

definition int_max_str_digits :: nat where
  "int_max_str_digits = 4300"

definition format_int :: "int \<Rightarrow> string option" where
  "format_int i = (if 10 ^ int_max_str_digits \<le> \<bar>i\<bar> then None else Some (str_int i))"

text \<open>\<^verbatim>\<open>range(start, stop, step)\<close> for a positive step, and \<^verbatim>\<open>range(n)\<close>.\<close>

function range_step :: "int \<Rightarrow> int \<Rightarrow> int \<Rightarrow> int list" where
  "range_step a b s = (if 0 < s \<and> a < b then a # range_step (a + s) b s else [])"
  by pat_completeness auto
termination
  by (relation "measure (\<lambda>(a, b, s). nat (b - a))") auto

declare range_step.simps [simp del]

definition py_range :: "int \<Rightarrow> int list" where
  "py_range n = range_step 0 n 1"

text \<open>
  A \<^verbatim>\<open>for\<close> loop over a list whose body updates the loop's variables \<open>s\<close> and may
  raise.
\<close>

fun for_loop :: "'a list \<Rightarrow> ('a \<Rightarrow> 's \<Rightarrow> 's option) \<Rightarrow> 's \<Rightarrow> 's option" where
  "for_loop [] body s = Some s"
| "for_loop (i # is) body s = do { s' \<leftarrow> body i s; for_loop is body s' }"

subsection \<open>Numbers and the interpreter's library\<close>

text \<open>
  The geometry arguments are annotated \<^verbatim>\<open>float\<close> in the source but receive
  \<^verbatim>\<open>int\<close>s from most call sites; the value keeps its dynamic type.
\<close>

datatype 'f pynum = PInt int | PFloat 'f

record ('f, 'g) runtime =
  rt_hash :: "string \<Rightarrow> int"
  rt_Random :: "int \<Rightarrow> 'g"
  rt_random :: "'g \<Rightarrow> 'f \<times> 'g"
  rt_randint :: "'g \<Rightarrow> int \<Rightarrow> int \<Rightarrow> int \<times> 'g"
  rt_float :: "rat \<Rightarrow> 'f"
  rt_radians :: "'f \<Rightarrow> 'f"
  rt_cos :: "'f \<Rightarrow> 'f"
  rt_sin :: "'f \<Rightarrow> 'f"
  rt_fmt1 :: "'f \<Rightarrow> string"

text \<open>
  \<^item> \<open>rt_hash\<close>: the built-in \<^verbatim>\<open>hash\<close> on strings of the running process (CPython
    salts it per process unless \<^verbatim>\<open>PYTHONHASHSEED\<close> fixes the salt);
  \<^item> \<open>rt_Random seed\<close>: the state of \<^verbatim>\<open>random.Random(seed)\<close>; \<open>rt_random\<close>:
    \<^verbatim>\<open>rnd.random()\<close>; \<open>rt_randint\<close>: \<^verbatim>\<open>rnd.randint(a, b)\<close>, each with the new state;
  \<^item> \<open>rt_float q\<close>: the double nearest to the rational \<open>q\<close> (a float literal, the
    conversion of an \<^verbatim>\<open>int\<close> in range, a true division of \<^verbatim>\<open>int\<close>s);
  \<^item> \<open>rt_fmt1 x\<close>: \<^verbatim>\<open>format(x, '.1f')\<close> of a float.
\<close>

text \<open>
  A rational is beyond the doubles when rounding it to the nearest double (ties to even)
  leaves the finite range: from \<open>2^1024 - 2^970\<close> on, the midpoint of the largest double
  \<open>2^1024 - 2^971\<close> and \<open>2^1024\<close>.
\<close>

definition float_overflow :: "rat \<Rightarrow> bool" where
  "float_overflow q \<longleftrightarrow> 2 ^ 1024 - 2 ^ 970 \<le> \<bar>q\<bar>"

text \<open>The implicit conversion to \<^verbatim>\<open>float\<close>; an \<^verbatim>\<open>int\<close> beyond the doubles raises.\<close>

definition to_float :: "('f, 'g) runtime \<Rightarrow> 'f pynum \<Rightarrow> 'f option" where
  "to_float rt v =
     (case v of
        PFloat x \<Rightarrow> Some x
      | PInt n \<Rightarrow> if float_overflow (of_int n) then None else Some (rt_float rt (of_int n)))"

text \<open>\<^verbatim>\<open>a + b\<close> and \<^verbatim>\<open>a * b\<close>: exact on two \<^verbatim>\<open>int\<close>s, on floats otherwise.\<close>

definition num_add :: "('f::plus, 'g) runtime \<Rightarrow> 'f pynum \<Rightarrow> 'f pynum \<Rightarrow> 'f pynum option" where
  "num_add rt a b =
     (case (a, b) of
        (PInt m, PInt n) \<Rightarrow> Some (PInt (m + n))
      | _ \<Rightarrow> do { x \<leftarrow> to_float rt a; y \<leftarrow> to_float rt b; Some (PFloat (x + y)) })"

definition num_mul :: "('f::times, 'g) runtime \<Rightarrow> 'f pynum \<Rightarrow> 'f pynum \<Rightarrow> 'f pynum option" where
  "num_mul rt a b =
     (case (a, b) of
        (PInt m, PInt n) \<Rightarrow> Some (PInt (m * n))
      | _ \<Rightarrow> do { x \<leftarrow> to_float rt a; y \<leftarrow> to_float rt b; Some (PFloat (x * y)) })"

text \<open>
  \<^verbatim>\<open>a / b\<close>: two \<^verbatim>\<open>int\<close>s give the correctly rounded quotient, or raise when the
  divisor is zero or the quotient is beyond the doubles. The one division by a float in
  the source has the constant divisor \<^verbatim>\<open>bars * 1.5\<close>, which is 9.0, so the
  \<^verbatim>\<open>ZeroDivisionError\<close> of a float division is not modelled.
\<close>

definition num_truediv :: "('f::inverse, 'g) runtime \<Rightarrow> 'f pynum \<Rightarrow> 'f pynum \<Rightarrow> 'f pynum option" where
  "num_truediv rt a b =
     (case (a, b) of
        (PInt m, PInt n) \<Rightarrow>
          if n = 0 \<or> float_overflow (of_int m / of_int n) then None
          else Some (PFloat (rt_float rt (of_int m / of_int n)))
      | _ \<Rightarrow> do { x \<leftarrow> to_float rt a; y \<leftarrow> to_float rt b; Some (PFloat (x / y)) })"

text \<open>The f-string field \<^verbatim>\<open>{v:.1f}\<close>; an \<^verbatim>\<open>int\<close> is converted to a float first.\<close>

definition fmt :: "('f, 'g) runtime \<Rightarrow> 'f pynum \<Rightarrow> string option" where
  "fmt rt v = do { x \<leftarrow> to_float rt v; Some (rt_fmt1 rt x) }"

text \<open>
  The test \<^verbatim>\<open>if fill:\<close> on an \<^verbatim>\<open>Optional[str]\<close>: it passes on a string that is not
  empty, which \<open>truthy_str\<close> returns; \<^verbatim>\<open>None\<close> and the empty string fail it.
\<close>

definition truthy_str :: "string option \<Rightarrow> string option" where
  "truthy_str fill = (case fill of None \<Rightarrow> None | Some c \<Rightarrow> if c = [] then None else Some c)"

subsection \<open>The generator and the primitives\<close>

text \<open>\<^verbatim>\<open>rng(seed)\<close> (lines 85 to 87), on the \<^verbatim>\<open>int\<close> seeds the core passes.\<close>

definition rng :: "('f, 'g) runtime \<Rightarrow> int \<Rightarrow> 'g" where
  "rng rt seed = rt_Random rt seed"

text \<open>\<^verbatim>\<open>jitter(rnd, val, scale)\<close> (lines 90 and 91).\<close>

definition jitter ::
  "('f::{plus,minus,times}, 'g) runtime \<Rightarrow> 'g \<Rightarrow> 'f pynum \<Rightarrow> 'f pynum \<Rightarrow> ('f \<times> 'g) option" where
  "jitter rt rnd val scale = do {
     let (r, rnd') = rt_random rt rnd;
     s \<leftarrow> to_float rt scale;
     v \<leftarrow> to_float rt val;
     Some (v + (r - rt_float rt (1 / 2)) * s, rnd')
   }"

text \<open>\<^verbatim>\<open>rough_line\<close> (lines 94 to 105). The loop's variables are \<open>(segs, rnd)\<close>.\<close>

definition rough_line_body ::
  "('f::{plus,minus,times}, 'g) runtime \<Rightarrow> 'f pynum \<Rightarrow> 'f pynum \<Rightarrow> 'f pynum \<Rightarrow> 'f pynum \<Rightarrow> string \<Rightarrow>
     int \<Rightarrow> string list \<times> 'g \<Rightarrow> (string list \<times> 'g) option" where
  \<open>rough_line_body rt x1 y1 x2 y2 stroke i s = do {
     let (segs, rnd) = s;
     (jx1, rnd) \<leftarrow> jitter rt rnd x1 (PFloat (rt_float rt (22 / 10)));
     (jy1, rnd) \<leftarrow> jitter rt rnd y1 (PFloat (rt_float rt (22 / 10)));
     (jx2, rnd) \<leftarrow> jitter rt rnd x2 (PFloat (rt_float rt (22 / 10)));
     (jy2, rnd) \<leftarrow> jitter rt rnd y2 (PFloat (rt_float rt (22 / 10)));
     Some (segs @
       [''<path d="M '' @ rt_fmt1 rt jx1 @ '','' @ rt_fmt1 rt jy1 @ '' L '' @ rt_fmt1 rt jx2 @
        '','' @ rt_fmt1 rt jy2 @ ''" stroke="'' @ stroke @
        ''" stroke-width="1.8" fill="none" stroke-linecap="round" opacity="0.9" />''], rnd)
   }\<close>

definition rough_line ::
  "('f::{plus,minus,times}, 'g) runtime \<Rightarrow> 'g \<Rightarrow> 'f pynum \<Rightarrow> 'f pynum \<Rightarrow> 'f pynum \<Rightarrow> 'f pynum \<Rightarrow> string \<Rightarrow>
     (string \<times> 'g) option" where
  "rough_line rt rnd x1 y1 x2 y2 stroke = do {
     (segs, rnd) \<leftarrow> for_loop (py_range 2) (rough_line_body rt x1 y1 x2 y2 stroke) ([], rnd);
     Some (join nl segs, rnd)
   }"

text \<open>\<^verbatim>\<open>rough_rect\<close> (lines 108 to 117).\<close>

definition rough_rect ::
  "('f::{plus,minus,times}, 'g) runtime \<Rightarrow> 'g \<Rightarrow> 'f pynum \<Rightarrow> 'f pynum \<Rightarrow> 'f pynum \<Rightarrow> 'f pynum \<Rightarrow> string \<Rightarrow>
     string option \<Rightarrow> (string \<times> 'g) option" where
  \<open>rough_rect rt rnd x y w h stroke fill = do {
     parts \<leftarrow>
       (case truthy_str fill of
          Some c \<Rightarrow> do {
            fx \<leftarrow> fmt rt x; fy \<leftarrow> fmt rt y; fw \<leftarrow> fmt rt w; fh \<leftarrow> fmt rt h;
            Some [''<rect x="'' @ fx @ ''" y="'' @ fy @ ''" width="'' @ fw @ ''" height="'' @ fh @
                  ''" fill="'' @ c @ ''" opacity="0.1" rx="8" />'']
          }
        | None \<Rightarrow> Some []);
     xw \<leftarrow> num_add rt x w;
     yh \<leftarrow> num_add rt y h;
     (l, rnd) \<leftarrow> rough_line rt rnd x y xw y stroke;
     parts \<leftarrow> Some (parts @ [l]);
     (l, rnd) \<leftarrow> rough_line rt rnd xw y xw yh stroke;
     parts \<leftarrow> Some (parts @ [l]);
     (l, rnd) \<leftarrow> rough_line rt rnd xw yh x yh stroke;
     parts \<leftarrow> Some (parts @ [l]);
     (l, rnd) \<leftarrow> rough_line rt rnd x yh x y stroke;
     parts \<leftarrow> Some (parts @ [l]);
     Some (join nl parts, rnd)
   }\<close>

text \<open>\<^verbatim>\<open>rough_circle\<close> (lines 120 to 134). The inner loop's variables are \<open>(pts, rnd)\<close>,
  the outer loop's \<open>(parts, rnd)\<close>.\<close>

definition rough_circle_point ::
  "('f::{plus,minus,times}, 'g) runtime \<Rightarrow> 'f pynum \<Rightarrow> 'f pynum \<Rightarrow> 'f pynum \<Rightarrow>
     int \<Rightarrow> string list \<times> 'g \<Rightarrow> (string list \<times> 'g) option" where
  \<open>rough_circle_point rt cx cy r a s = do {
     let (pts, rnd) = s;
     (j, rnd) \<leftarrow> jitter rt rnd (PInt 0) (PInt 2);
     deg \<leftarrow> num_add rt (PInt a) (PFloat j);
     ang \<leftarrow> map_option (rt_radians rt) (to_float rt deg);
     (j, rnd) \<leftarrow> jitter rt rnd (PInt 0) (PFloat (rt_float rt (15 / 10)));
     rr \<leftarrow> num_add rt r (PFloat j);
     rc \<leftarrow> num_mul rt rr (PFloat (rt_cos rt ang));
     x \<leftarrow> num_add rt cx rc;
     rs \<leftarrow> num_mul rt rr (PFloat (rt_sin rt ang));
     y \<leftarrow> num_add rt cy rs;
     fx \<leftarrow> fmt rt x; fy \<leftarrow> fmt rt y;
     Some (pts @ [fx @ '','' @ fy], rnd)
   }\<close>

definition rough_circle_pass ::
  "('f::{plus,minus,times}, 'g) runtime \<Rightarrow> 'f pynum \<Rightarrow> 'f pynum \<Rightarrow> 'f pynum \<Rightarrow> string \<Rightarrow>
     int \<Rightarrow> string list \<times> 'g \<Rightarrow> (string list \<times> 'g) option" where
  \<open>rough_circle_pass rt cx cy r stroke i s = do {
     let (parts, rnd) = s;
     (pts, rnd) \<leftarrow> for_loop (range_step 0 360 20) (rough_circle_point rt cx cy r) ([], rnd);
     Some (parts @
       [''<polyline points="'' @ join '' '' pts @ ''" fill="none" stroke="'' @ stroke @
        ''" stroke-width="1.6" opacity="0.9" />''], rnd)
   }\<close>

definition rough_circle ::
  "('f::{plus,minus,times}, 'g) runtime \<Rightarrow> 'g \<Rightarrow> 'f pynum \<Rightarrow> 'f pynum \<Rightarrow> 'f pynum \<Rightarrow> string \<Rightarrow>
     string option \<Rightarrow> (string \<times> 'g) option" where
  \<open>rough_circle rt rnd cx cy r stroke fill = do {
     parts \<leftarrow>
       (case truthy_str fill of
          Some c \<Rightarrow> do {
            fx \<leftarrow> fmt rt cx; fy \<leftarrow> fmt rt cy; fr \<leftarrow> fmt rt r;
            Some [''<circle cx="'' @ fx @ ''" cy="'' @ fy @ ''" r="'' @ fr @ ''" fill="'' @ c @
                  ''" opacity="0.1" />'']
          }
        | None \<Rightarrow> Some []);
     (parts, rnd) \<leftarrow> for_loop (py_range 2) (rough_circle_pass rt cx cy r stroke) (parts, rnd);
     Some (join nl parts, rnd)
   }\<close>

text \<open>\<^verbatim>\<open>text_el\<close> (lines 137 to 139).\<close>

definition text_el :: "('f, 'g) runtime \<Rightarrow> 'f pynum \<Rightarrow> 'f pynum \<Rightarrow> string \<Rightarrow> string \<Rightarrow> string option" where
  \<open>text_el rt x y content color = do {
     let safe = replace_char CHR ''>'' ''&gt;'' (replace_char CHR ''<'' ''&lt;'' content);
     fx \<leftarrow> fmt rt x; fy \<leftarrow> fmt rt y;
     Some (''<text x="'' @ fx @ ''" y="'' @ fy @ ''" fill="'' @ color @
       ''" font-family="Inter, system-ui, -apple-system, Segoe UI, Roboto" font-size="14" opacity="0.9">'' @
       safe @ ''</text>'')
   }\<close>

subsection \<open>Themes and the classification of the prompt\<close>

record palette =
  p_bg :: string
  p_ink :: string
  p_accent :: string

text \<open>\<^verbatim>\<open>THEMES\<close> (lines 142 to 153): a dictionary, as the list of its items.\<close>

definition THEMES :: "(string \<times> palette) list" where
  "THEMES =
     [(''slate'', \<lparr>p_bg = ''#0f172a'', p_ink = ''#93c5fd'', p_accent = ''#60a5fa''\<rparr>),
      (''sand'', \<lparr>p_bg = ''#f1f5f9'', p_ink = ''#0f172a'', p_accent = ''#64748b''\<rparr>)]"

text \<open>
  \<^verbatim>\<open>THEMES.get(theme, THEMES["slate"])\<close> (line 158): the default is looked up first,
  and a missing key \<^verbatim>\<open>"slate"\<close> would raise.
\<close>

definition get_palette :: "string \<Rightarrow> palette option" where
  "get_palette theme = do {
     dflt \<leftarrow> map_of THEMES ''slate'';
     Some (case map_of THEMES theme of Some p \<Rightarrow> p | None \<Rightarrow> dflt)
   }"

record flags =
  wants_header :: bool
  wants_list :: bool
  wants_form :: bool
  wants_cards :: bool
  wants_chart :: bool
  wants_avatar :: bool

text \<open>Lines 163 to 169.\<close>

definition classify :: "string \<Rightarrow> flags" where
  "classify prompt =
     (let p = lower prompt in
      \<lparr>wants_header = any_in [''header'', ''title'', ''navbar'', ''hero''] p,
       wants_list = any_in [''list'', ''items'', ''menu'', ''sidebar''] p,
       wants_form = any_in [''form'', ''input'', ''search'', ''login'', ''button''] p,
       wants_cards = any_in [''cards'', ''grid'', ''gallery'', ''images'', ''thumbnails'', ''card''] p,
       wants_chart = any_in [''chart'', ''graph'', ''analytics''] p,
       wants_avatar = any_in [''avatar'', ''profile'', ''user''] p\<rparr>)"

text \<open>
  \<^verbatim>\<open>seed or abs(hash(prompt)) % (2**32)\<close> (line 157): \<^verbatim>\<open>or\<close> takes its right operand
  when the left one is \<^verbatim>\<open>None\<close> or 0.
\<close>

definition seed_or_hash :: "('f, 'g) runtime \<Rightarrow> int option \<Rightarrow> string \<Rightarrow> int" where
  "seed_or_hash rt seed prompt =
     (case seed of
        Some s \<Rightarrow> if s \<noteq> 0 then s else \<bar>rt_hash rt prompt\<bar> mod 2 ^ 32
      | None \<Rightarrow> \<bar>rt_hash rt prompt\<bar> mod 2 ^ 32)"

subsection \<open>The layout: \<^verbatim>\<open>generate_sketch_svg\<close> (lines 156 to 250)\<close>

text \<open>
  The variables the function updates while it draws: the generator, the list \<^verbatim>\<open>parts\<close>
  and the cursor \<^verbatim>\<open>y\<close>.
\<close>

record 'g canvas =
  c_rnd :: 'g
  c_parts :: "string list"
  c_y :: int

text \<open>\<^verbatim>\<open>parts.append(rough_rect(rnd, ...))\<close> and its siblings.\<close>

definition append_rect ::
  "('f::{plus,minus,times}, 'g) runtime \<Rightarrow> 'f pynum \<Rightarrow> 'f pynum \<Rightarrow> 'f pynum \<Rightarrow> 'f pynum \<Rightarrow> string \<Rightarrow>
     string option \<Rightarrow> 'g canvas \<Rightarrow> 'g canvas option" where
  "append_rect rt x y w h stroke fill st = do {
     (s, rnd) \<leftarrow> rough_rect rt (c_rnd st) x y w h stroke fill;
     Some (st\<lparr>c_rnd := rnd, c_parts := c_parts st @ [s]\<rparr>)
   }"

definition append_line ::
  "('f::{plus,minus,times}, 'g) runtime \<Rightarrow> 'f pynum \<Rightarrow> 'f pynum \<Rightarrow> 'f pynum \<Rightarrow> 'f pynum \<Rightarrow> string \<Rightarrow>
     'g canvas \<Rightarrow> 'g canvas option" where
  "append_line rt x1 y1 x2 y2 stroke st = do {
     (s, rnd) \<leftarrow> rough_line rt (c_rnd st) x1 y1 x2 y2 stroke;
     Some (st\<lparr>c_rnd := rnd, c_parts := c_parts st @ [s]\<rparr>)
   }"

definition append_circle ::
  "('f::{plus,minus,times}, 'g) runtime \<Rightarrow> 'f pynum \<Rightarrow> 'f pynum \<Rightarrow> 'f pynum \<Rightarrow> string \<Rightarrow>
     string option \<Rightarrow> 'g canvas \<Rightarrow> 'g canvas option" where
  "append_circle rt cx cy r stroke fill st = do {
     (s, rnd) \<leftarrow> rough_circle rt (c_rnd st) cx cy r stroke fill;
     Some (st\<lparr>c_rnd := rnd, c_parts := c_parts st @ [s]\<rparr>)
   }"

definition append_text ::
  "('f, 'g) runtime \<Rightarrow> 'f pynum \<Rightarrow> 'f pynum \<Rightarrow> string \<Rightarrow> string \<Rightarrow> 'g canvas \<Rightarrow> 'g canvas option" where
  "append_text rt x y content color st = do {
     s \<leftarrow> text_el rt x y content color;
     Some (st\<lparr>c_parts := c_parts st @ [s]\<rparr>)
   }"

text \<open>Header (lines 182 to 185).\<close>

definition header_block ::
  "('f::{plus,minus,times}, 'g) runtime \<Rightarrow> int \<Rightarrow> int \<Rightarrow> string \<Rightarrow> string \<Rightarrow> 'g canvas \<Rightarrow> 'g canvas option" where
  "header_block rt margin inner_w ink accent st = do {
     st \<leftarrow> append_rect rt (PInt margin) (PInt (c_y st)) (PInt inner_w) (PInt 60) ink (Some accent) st;
     st \<leftarrow> append_text rt (PInt (margin + 16)) (PInt (c_y st + 36)) ''Header / Title'' ink st;
     Some (st\<lparr>c_y := c_y st + 80\<rparr>)
   }"

text \<open>Avatar (lines 188 to 191).\<close>

definition avatar_block ::
  "('f::{plus,minus,times}, 'g) runtime \<Rightarrow> int \<Rightarrow> string \<Rightarrow> string \<Rightarrow> 'g canvas \<Rightarrow> 'g canvas option" where
  "avatar_block rt margin ink accent st = do {
     st \<leftarrow> append_circle rt (PInt (margin + 32)) (PInt (c_y st + 32)) (PInt 24) ink (Some accent) st;
     st \<leftarrow> append_text rt (PInt (margin + 72)) (PInt (c_y st + 38)) ''User Name'' ink st;
     Some (st\<lparr>c_y := c_y st + 72\<rparr>)
   }"

text \<open>Form (lines 194 to 200).\<close>

definition form_block ::
  "('f::{plus,minus,times}, 'g) runtime \<Rightarrow> int \<Rightarrow> int \<Rightarrow> string \<Rightarrow> string \<Rightarrow> 'g canvas \<Rightarrow> 'g canvas option" where
  "form_block rt margin inner_w ink accent st = do {
     st \<leftarrow> append_rect rt (PInt margin) (PInt (c_y st)) (PInt inner_w) (PInt 120) ink (Some accent) st;
     st \<leftarrow> append_text rt (PInt (margin + 16)) (PInt (c_y st + 28)) ''Input'' ink st;
     st \<leftarrow> append_rect rt (PInt (margin + 12)) (PInt (c_y st + 40)) (PInt (inner_w - 24)) (PInt 28) ink None st;
     st \<leftarrow> append_text rt (PInt (margin + 16)) (PInt (c_y st + 80)) ''Button'' ink st;
     st \<leftarrow> append_rect rt (PInt (margin + 12)) (PInt (c_y st + 90)) (PInt 120) (PInt 28) ink (Some accent) st;
     Some (st\<lparr>c_y := c_y st + 140\<rparr>)
   }"

text \<open>Cards (lines 203 to 214): the body of the inner loop, of the outer loop, the block.\<close>

definition cards_cell ::
  "('f::{plus,minus,times}, 'g) runtime \<Rightarrow> int \<Rightarrow> string \<Rightarrow> int \<Rightarrow> int \<Rightarrow> 'f pynum \<Rightarrow> int \<Rightarrow> int \<Rightarrow> int \<Rightarrow>
     'g canvas \<Rightarrow> 'g canvas option" where
  "cards_cell rt margin ink cols gap cw ch r c st = do {
     cg \<leftarrow> num_add rt cw (PInt gap);
     ccg \<leftarrow> num_mul rt (PInt c) cg;
     x \<leftarrow> num_add rt (PInt margin) ccg;
     st \<leftarrow> append_rect rt x (PInt (c_y st)) cw (PInt ch) ink None st;
     x10 \<leftarrow> num_add rt x (PInt 10);
     append_text rt x10 (PInt (c_y st + 24)) (''Card '' @ str_int (r * cols + c + 1)) ink st
   }"

definition cards_row ::
  "('f::{plus,minus,times}, 'g) runtime \<Rightarrow> int \<Rightarrow> string \<Rightarrow> int \<Rightarrow> int \<Rightarrow> 'f pynum \<Rightarrow> int \<Rightarrow> int \<Rightarrow>
     'g canvas \<Rightarrow> 'g canvas option" where
  "cards_row rt margin ink cols gap cw ch r st = do {
     st \<leftarrow> for_loop (py_range cols) (cards_cell rt margin ink cols gap cw ch r) st;
     Some (st\<lparr>c_y := c_y st + (ch + gap)\<rparr>)
   }"

definition cards_block ::
  "('f::{plus,minus,times,inverse}, 'g) runtime \<Rightarrow> int \<Rightarrow> int \<Rightarrow> string \<Rightarrow> 'g canvas \<Rightarrow> 'g canvas option" where
  "cards_block rt margin inner_w ink st = do {
     let cols = 3;
     let gap = 14;
     cw \<leftarrow> num_truediv rt (PInt (inner_w - gap * (cols - 1))) (PInt cols);
     let ch = 100;
     st \<leftarrow> for_loop (py_range 2) (cards_row rt margin ink cols gap cw ch) st;
     Some (st\<lparr>c_y := c_y st + 8\<rparr>)
   }"

text \<open>List (lines 217 to 223).\<close>

definition list_row ::
  "('f::{plus,minus,times}, 'g) runtime \<Rightarrow> int \<Rightarrow> int \<Rightarrow> string \<Rightarrow> int \<Rightarrow> int \<Rightarrow> 'g canvas \<Rightarrow> 'g canvas option" where
  "list_row rt margin inner_w ink lh i st = do {
     st \<leftarrow> append_text rt (PInt (margin + 16)) (PInt (c_y st + 24 + i * lh))
            (''List item '' @ str_int (i + 1)) ink st;
     append_line rt (PInt (margin + 10)) (PInt (c_y st + 30 + i * lh))
       (PInt (margin + inner_w - 10)) (PInt (c_y st + 30 + i * lh)) ink st
   }"

definition list_block ::
  "('f::{plus,minus,times}, 'g) runtime \<Rightarrow> int \<Rightarrow> int \<Rightarrow> string \<Rightarrow> 'g canvas \<Rightarrow> 'g canvas option" where
  "list_block rt margin inner_w ink st = do {
     let lh = 28;
     st \<leftarrow> append_rect rt (PInt margin) (PInt (c_y st)) (PInt inner_w) (PInt (lh * 5 + 20)) ink None st;
     st \<leftarrow> for_loop (py_range 5) (list_row rt margin inner_w ink lh) st;
     Some (st\<lparr>c_y := c_y st + (lh * 5 + 40)\<rparr>)
   }"

text \<open>Chart (lines 226 to 237).\<close>

definition chart_bar ::
  "('f::{plus,minus,times}, 'g) runtime \<Rightarrow> int \<Rightarrow> string \<Rightarrow> int \<Rightarrow> 'f pynum \<Rightarrow> int \<Rightarrow> 'g canvas \<Rightarrow> 'g canvas option" where
  "chart_bar rt margin accent ch bw i st = do {
     let (bar_h, rnd) = rt_randint rt (c_rnd st) 40 (ch - 30);
     st \<leftarrow> Some (st\<lparr>c_rnd := rnd\<rparr>);
     bw15 \<leftarrow> num_mul rt bw (PFloat (rt_float rt (15 / 10)));
     ibw \<leftarrow> num_mul rt (PInt i) bw15;
     bx \<leftarrow> num_add rt (PInt (margin + 20)) ibw;
     let by = c_y st + ch - bar_h - 10;
     append_rect rt bx (PInt by) bw (PInt bar_h) accent (Some accent) st
   }"

definition chart_block ::
  "('f::{plus,minus,times,inverse}, 'g) runtime \<Rightarrow> int \<Rightarrow> int \<Rightarrow> string \<Rightarrow> string \<Rightarrow> 'g canvas \<Rightarrow> 'g canvas option" where
  "chart_block rt margin inner_w ink accent st = do {
     let ch = 160;
     st \<leftarrow> append_rect rt (PInt margin) (PInt (c_y st)) (PInt inner_w) (PInt ch) ink None st;
     let bars = 6;
     b15 \<leftarrow> num_mul rt (PInt bars) (PFloat (rt_float rt (15 / 10)));
     bw \<leftarrow> num_truediv rt (PInt inner_w) b15;
     st \<leftarrow> for_loop (py_range bars) (chart_bar rt margin accent ch bw) st;
     Some (st\<lparr>c_y := c_y st + (ch + 20)\<rparr>)
   }"

text \<open>Fallback (lines 240 to 245).\<close>

definition fallback_block ::
  "('f::{plus,minus,times}, 'g) runtime \<Rightarrow> int \<Rightarrow> int \<Rightarrow> string \<Rightarrow> string \<Rightarrow> 'g canvas \<Rightarrow> 'g canvas option" where
  "fallback_block rt margin inner_w ink accent st = do {
     st \<leftarrow> append_rect rt (PInt margin) (PInt (c_y st)) (PInt inner_w) (PInt 60) ink (Some accent) st;
     st \<leftarrow> append_text rt (PInt (margin + 16)) (PInt (c_y st + 36)) ''Title'' ink st;
     st \<leftarrow> Some (st\<lparr>c_y := c_y st + 80\<rparr>);
     st \<leftarrow> append_rect rt (PInt margin) (PInt (c_y st)) (PInt inner_w) (PInt 160) ink None st;
     append_text rt (PInt (margin + 16)) (PInt (c_y st + 40)) ''Your sketch will appear here'' ink st
   }"

text \<open>The two opening fragments (lines 172 to 175).\<close>

definition svg_open :: "int \<Rightarrow> int \<Rightarrow> string option" where
  \<open>svg_open width height = do {
     w \<leftarrow> format_int width;
     h \<leftarrow> format_int height;
     Some (''<svg xmlns="http://www.w3.org/2000/svg" width="'' @ w @ ''" height="'' @ h @
           ''" viewBox="0 0 '' @ w @ '' '' @ h @ ''">'')
   }\<close>

definition bg_rect :: "string \<Rightarrow> string" where
  \<open>bg_rect bg = ''<rect width="100%" height="100%" fill="'' @ bg @ ''"/>''\<close>

text \<open>A block that is drawn only when its condition holds.\<close>

definition run_if :: "bool \<Rightarrow> ('s \<Rightarrow> 's option) \<Rightarrow> 's \<Rightarrow> 's option" where
  "run_if b blk st = (if b then blk st else Some st)"

text \<open>The list \<^verbatim>\<open>parts\<close> at line 250, before it is joined.\<close>

definition generate_parts ::
  "('f::{plus,minus,times,inverse}, 'g) runtime \<Rightarrow> string \<Rightarrow> int \<Rightarrow> int \<Rightarrow> int option \<Rightarrow> string \<Rightarrow>
     string list option" where
  "generate_parts rt prompt width height seed theme = do {
     let rnd = rng rt (seed_or_hash rt seed prompt);
     palette \<leftarrow> get_palette theme;
     let ink = p_ink palette;
     let accent = p_accent palette;
     let fl = classify prompt;
     otag \<leftarrow> svg_open width height;
     let parts = [otag, bg_rect (p_bg palette)];
     let y = 24;
     let margin = 24;
     let inner_w = width - margin * 2;
     let st = \<lparr>c_rnd = rnd, c_parts = parts, c_y = y\<rparr>;
     st \<leftarrow> run_if (wants_header fl) (header_block rt margin inner_w ink accent) st;
     st \<leftarrow> run_if (wants_avatar fl) (avatar_block rt margin ink accent) st;
     st \<leftarrow> run_if (wants_form fl) (form_block rt margin inner_w ink accent) st;
     st \<leftarrow> run_if (wants_cards fl) (cards_block rt margin inner_w ink) st;
     st \<leftarrow> run_if (wants_list fl) (list_block rt margin inner_w ink) st;
     st \<leftarrow> run_if (wants_chart fl) (chart_block rt margin inner_w ink accent) st;
     st \<leftarrow> run_if (\<not> (wants_header fl \<or> wants_list fl \<or> wants_form fl \<or> wants_cards fl \<or>
                     wants_chart fl \<or> wants_avatar fl))
            (fallback_block rt margin inner_w ink accent) st;
     st \<leftarrow> append_text rt (PInt margin) (PInt (height - 12)) (''Prompt: '' @ take 80 prompt) ink st;
     Some (c_parts st @ [''</svg>''])
   }"

definition generate_sketch_svg ::
  "('f::{plus,minus,times,inverse}, 'g) runtime \<Rightarrow> string \<Rightarrow> int \<Rightarrow> int \<Rightarrow> int option \<Rightarrow> string \<Rightarrow>
     string option" where
  "generate_sketch_svg rt prompt width height seed theme =
     map_option (join nl) (generate_parts rt prompt width height seed theme)"

subsection \<open>Descriptions that follow the specification\<close>

text \<open>
  The definitions of this subsection are written from the words of the specification, to
  be compared with the functions above, which are written from the source.
\<close>

text \<open>
  Escaping of a label: \<^verbatim>\<open><\<close> and \<^verbatim>\<open>>\<close> become their entities, every other character
  stays.
\<close>

definition xml_escape :: "string \<Rightarrow> string" where
  "xml_escape s =
     concat (map (\<lambda>c. if c = CHR ''<'' then ''&lt;'' else if c = CHR ''>'' then ''&gt;'' else [c]) s)"

text \<open>
  The caption: a text element at the left margin, 12 below the height, in the ink colour,
  showing \<^verbatim>\<open>Prompt: \<close> and the first 80 characters of the prompt, escaped.
\<close>

definition caption_markup :: "('f, 'g) runtime \<Rightarrow> int \<Rightarrow> string \<Rightarrow> string \<Rightarrow> string" where
  \<open>caption_markup rt height ink prompt =
     ''<text x="'' @ rt_fmt1 rt (rt_float rt 24) @ ''" y="'' @
     rt_fmt1 rt (rt_float rt (of_int (height - 12))) @ ''" fill="'' @ ink @
     ''" font-family="Inter, system-ui, -apple-system, Segoe UI, Roboto" font-size="14" opacity="0.9">'' @
     ''Prompt: '' @ xml_escape (take 80 prompt) @ ''</text>''\<close>

text \<open>
  A fragment is the label \<open>content\<close> when it is a text element whose text is \<open>content\<close>
  (the text of a label has no raw \<^verbatim>\<open>>\<close>, so the last \<^verbatim>\<open>>\<close> before it closes the tag).
\<close>

definition is_label :: "string \<Rightarrow> string \<Rightarrow> bool" where
  "is_label content part \<longleftrightarrow>
     prefix ''<text '' part \<and> suffix (''>'' @ content @ ''</text>'') part"

definition count_labels :: "string \<Rightarrow> string list \<Rightarrow> nat" where
  "count_labels content parts = length (filter (is_label content) parts)"

text \<open>The blocks of the layout, in the order in which the composer considers them.\<close>

datatype block = BHeader | BAvatar | BForm | BCards | BList | BChart | BFallback

definition block_order :: "block list" where
  "block_order = [BHeader, BAvatar, BForm, BCards, BList, BChart, BFallback]"

text \<open>A block is drawn when its flag is set; the fallback, when no flag is set.\<close>

fun wanted :: "flags \<Rightarrow> block \<Rightarrow> bool" where
  "wanted fl BHeader = wants_header fl"
| "wanted fl BAvatar = wants_avatar fl"
| "wanted fl BForm = wants_form fl"
| "wanted fl BCards = wants_cards fl"
| "wanted fl BList = wants_list fl"
| "wanted fl BChart = wants_chart fl"
| "wanted fl BFallback =
     (\<not> wants_header fl \<and> \<not> wants_list fl \<and> \<not> wants_form fl \<and> \<not> wants_cards fl \<and>
      \<not> wants_chart fl \<and> \<not> wants_avatar fl)"

fun draw_block ::
  "('f::{plus,minus,times,inverse}, 'g) runtime \<Rightarrow> int \<Rightarrow> int \<Rightarrow> string \<Rightarrow> string \<Rightarrow> block \<Rightarrow>
     'g canvas \<Rightarrow> 'g canvas option" where
  "draw_block rt margin inner_w ink accent BHeader = header_block rt margin inner_w ink accent"
| "draw_block rt margin inner_w ink accent BAvatar = avatar_block rt margin ink accent"
| "draw_block rt margin inner_w ink accent BForm = form_block rt margin inner_w ink accent"
| "draw_block rt margin inner_w ink accent BCards = cards_block rt margin inner_w ink"
| "draw_block rt margin inner_w ink accent BList = list_block rt margin inner_w ink"
| "draw_block rt margin inner_w ink accent BChart = chart_block rt margin inner_w ink accent"
| "draw_block rt margin inner_w ink accent BFallback = fallback_block rt margin inner_w ink accent"

text \<open>
  The composer: the two opening fragments, the wanted blocks in their fixed order, the
  caption, the closing tag.
\<close>

definition spec_layout ::
  "('f::{plus,minus,times,inverse}, 'g) runtime \<Rightarrow> string \<Rightarrow> int \<Rightarrow> int \<Rightarrow> int option \<Rightarrow> string \<Rightarrow>
     string list option" where
  "spec_layout rt prompt width height seed theme = do {
     palette \<leftarrow> get_palette theme;
     otag \<leftarrow> svg_open width height;
     st \<leftarrow> for_loop (filter (wanted (classify prompt)) block_order)
            (draw_block rt 24 (width - 48) (p_ink palette) (p_accent palette))
            \<lparr>c_rnd = rng rt (seed_or_hash rt seed prompt),
             c_parts = [otag, bg_rect (p_bg palette)], c_y = 24\<rparr>;
     st \<leftarrow> append_text rt (PInt 24) (PInt (height - 12)) (''Prompt: '' @ take 80 prompt)
            (p_ink palette) st;
     Some (c_parts st @ [''</svg>''])
   }"


text \<open>
  The rough circle: one point for each of the angles 0, 20, ..., 340; the angle is
  jittered with scale 2 and the radius with scale 1.5, in this order.
\<close>

definition circle_angles :: "int list" where
  "circle_angles = map (\<lambda>k. 20 * int k) [0..<18]"

definition spec_circle_point ::
  "('f::{plus,minus,times}, 'g) runtime \<Rightarrow> 'f pynum \<Rightarrow> 'f pynum \<Rightarrow> 'f pynum \<Rightarrow> int \<Rightarrow> 'g \<Rightarrow>
     (string \<times> 'g) option" where
  "spec_circle_point rt cx cy r a g = do {
     (ja, g) \<leftarrow> jitter rt g (PInt 0) (PInt 2);
     (jr, g) \<leftarrow> jitter rt g (PInt 0) (PFloat (rt_float rt (3 / 2)));
     deg \<leftarrow> num_add rt (PInt a) (PFloat ja);
     ang \<leftarrow> map_option (rt_radians rt) (to_float rt deg);
     rr \<leftarrow> num_add rt r (PFloat jr);
     dx \<leftarrow> num_mul rt rr (PFloat (rt_cos rt ang));
     dy \<leftarrow> num_mul rt rr (PFloat (rt_sin rt ang));
     x \<leftarrow> num_add rt cx dx;
     y \<leftarrow> num_add rt cy dy;
     fx \<leftarrow> fmt rt x;
     fy \<leftarrow> fmt rt y;
     Some (fx @ '','' @ fy, g)
   }"

fun spec_circle_points ::
  "('f::{plus,minus,times}, 'g) runtime \<Rightarrow> 'f pynum \<Rightarrow> 'f pynum \<Rightarrow> 'f pynum \<Rightarrow> int list \<Rightarrow> 'g \<Rightarrow>
     (string list \<times> 'g) option" where
  "spec_circle_points rt cx cy r [] g = Some ([], g)"
| "spec_circle_points rt cx cy r (a # as) g = do {
     (p, g) \<leftarrow> spec_circle_point rt cx cy r a g;
     (ps, g) \<leftarrow> spec_circle_points rt cx cy r as g;
     Some (p # ps, g)
   }"

definition spec_polyline ::
  "('f::{plus,minus,times}, 'g) runtime \<Rightarrow> 'f pynum \<Rightarrow> 'f pynum \<Rightarrow> 'f pynum \<Rightarrow> string \<Rightarrow> 'g \<Rightarrow>
     (string \<times> 'g) option" where
  \<open>spec_polyline rt cx cy r stroke g = do {
     (pts, g) \<leftarrow> spec_circle_points rt cx cy r circle_angles g;
     Some (''<polyline points="'' @ join '' '' pts @ ''" fill="none" stroke="'' @ stroke @
           ''" stroke-width="1.6" opacity="0.9" />'', g)
   }\<close>

definition spec_filled_circle ::
  "('f, 'g) runtime \<Rightarrow> 'f pynum \<Rightarrow> 'f pynum \<Rightarrow> 'f pynum \<Rightarrow> string \<Rightarrow> string option" where
  \<open>spec_filled_circle rt cx cy r c = do {
     fx \<leftarrow> fmt rt cx; fy \<leftarrow> fmt rt cy; fr \<leftarrow> fmt rt r;
     Some (''<circle cx="'' @ fx @ ''" cy="'' @ fy @ ''" r="'' @ fr @ ''" fill="'' @ c @
           ''" opacity="0.1" />'')
   }\<close>

definition spec_rough_circle ::
  "('f::{plus,minus,times}, 'g) runtime \<Rightarrow> 'g \<Rightarrow> 'f pynum \<Rightarrow> 'f pynum \<Rightarrow> 'f pynum \<Rightarrow> string \<Rightarrow>
     string option \<Rightarrow> (string \<times> 'g) option" where
  "spec_rough_circle rt g cx cy r stroke fill = do {
     disc \<leftarrow> (case truthy_str fill of
               Some c \<Rightarrow> map_option (\<lambda>d. [d]) (spec_filled_circle rt cx cy r c)
             | None \<Rightarrow> Some []);
     (first_pass, g) \<leftarrow> spec_polyline rt cx cy r stroke g;
     (second_pass, g) \<leftarrow> spec_polyline rt cx cy r stroke g;
     Some (join nl (disc @ [first_pass, second_pass]), g)
   }"

subsection \<open>A small runtime for concrete runs\<close>

text \<open>
  A stand-in for the interpreter's library over the rationals, used where a statement is
  to be shown at a concrete input: a linear congruential generator, a salted polynomial
  hash, polynomial stand-ins for the trigonometric functions and a decimal format with
  one digit. The salt plays the part of the per-process salt of the built-in \<^verbatim>\<open>hash\<close>.
\<close>

definition lcg_next :: "nat \<Rightarrow> nat" where
  "lcg_next g = (75 * g + 74) mod 65537"

definition demo_random :: "nat \<Rightarrow> rat \<times> nat" where
  "demo_random g = (of_nat (lcg_next g) / 65537, lcg_next g)"

definition demo_randint :: "nat \<Rightarrow> int \<Rightarrow> int \<Rightarrow> int \<times> nat" where
  "demo_randint g a b = (a + int (lcg_next g) mod (b - a + 1), lcg_next g)"

definition demo_hash :: "int \<Rightarrow> string \<Rightarrow> int" where
  "demo_hash salt s = foldl (\<lambda>h c. (h * 31 + of_char c) mod 4294967311) salt s - 2147483648"

definition demo_fmt1 :: "rat \<Rightarrow> string" where
  "demo_fmt1 x =
     (let t = nat \<lfloor>\<bar>x\<bar> * 10 + 1 / 2\<rfloor> in
      (if x < 0 then ''-'' else []) @ str_nat (t div 10) @ ''.'' @ [digit_char (t mod 10)])"

definition demo_runtime :: "int \<Rightarrow> (rat, nat) runtime" where
  "demo_runtime salt =
     \<lparr>rt_hash = demo_hash salt,
      rt_Random = (\<lambda>seed. nat \<bar>seed\<bar> mod 65537),
      rt_random = demo_random,
      rt_randint = demo_randint,
      rt_float = (\<lambda>q. q),
      rt_radians = (\<lambda>x. x * 355 / (113 * 180)),
      rt_cos = (\<lambda>x. 1 - x * x / 2),
      rt_sin = (\<lambda>x. x - x * x * x / 6),
      rt_fmt1 = demo_fmt1\<rparr>"

text \<open>What the success of a render needs of the library: \<^verbatim>\<open>randint\<close> stays in its bounds.\<close>

definition randint_in_bounds :: "('f, 'g) runtime \<Rightarrow> bool" where
  "randint_in_bounds rt \<longleftrightarrow>
     (\<forall>g a b. a \<le> b \<longrightarrow> a \<le> fst (rt_randint rt g a b) \<and> fst (rt_randint rt g a b) \<le> b)"

text \<open>An \<^verbatim>\<open>int\<close> that converts to a float, and a number that does.\<close>

definition fits :: "int \<Rightarrow> bool" where
  "fits n \<longleftrightarrow> \<not> float_overflow (of_int n)"

definition conv :: "'f pynum \<Rightarrow> bool" where
  "conv v = (case v of PInt n \<Rightarrow> fits n | PFloat x \<Rightarrow> True)"

text \<open>A bound on width and height under which every coordinate of the layout converts.\<close>

definition float_bound :: int where
  "float_bound = 10 ^ 308"

section \<open>Properties\<close>

subsection \<open>The seed\<close>

lemma seed_or_hash_zero: "seed_or_hash rt (Some 0) prompt = seed_or_hash rt None prompt"
  by (simp add: seed_or_hash_def)

lemma seed_or_hash_given: "seed \<noteq> 0 \<Longrightarrow> seed_or_hash rt (Some seed) prompt = seed"
  by (simp add: seed_or_hash_def)

lemma generate_parts_seed:
  "seed_or_hash rt seed prompt = seed_or_hash rt seed' prompt \<Longrightarrow>
   generate_parts rt prompt width height seed theme = generate_parts rt prompt width height seed' theme"
  unfolding generate_parts_def by (simp only:)

text \<open>
  Claim C9. A seed of 0 is taken for a missing seed: the generator is seeded with
  \<^verbatim>\<open>abs(hash(prompt)) % 2**32\<close>, and the render with seed 0 is the render with no seed,
  for every prompt, width, height and theme.
\<close>

theorem seed_zero_same_as_no_seed:
  "seed_or_hash rt (Some 0) prompt = \<bar>rt_hash rt prompt\<bar> mod 2 ^ 32 \<and>
   generate_sketch_svg rt prompt width height (Some 0) theme =
   generate_sketch_svg rt prompt width height None theme"
  unfolding generate_sketch_svg_def
  by (simp add: seed_or_hash_def generate_parts_seed [OF seed_or_hash_zero])

theorem seed_zero_same_as_no_seed_witness:
  "seed_or_hash (demo_runtime 1) (Some 0) ''avatar'' = \<bar>rt_hash (demo_runtime 1) ''avatar''\<bar> mod 2 ^ 32 \<and>
   generate_sketch_svg (demo_runtime 1) ''avatar'' 800 500 (Some 0) ''sand'' =
   generate_sketch_svg (demo_runtime 1) ''avatar'' 800 500 None ''sand''"
  by (rule seed_zero_same_as_no_seed)

text \<open>
  Claim C10. With a seed that is neither missing nor 0, two prompts with the same six
  flags and the same first 80 characters render to the same document.
\<close>

theorem prompt_only_through_flags_and_caption:
  assumes "seed \<noteq> 0"
    and "classify p1 = classify p2"
    and "take 80 p1 = take 80 p2"
  shows "generate_sketch_svg rt p1 width height (Some seed) theme =
         generate_sketch_svg rt p2 width height (Some seed) theme"
  unfolding generate_sketch_svg_def generate_parts_def
  by (simp only: seed_or_hash_given [OF assms(1)] assms(2) assms(3))

lemma long_prompts_same_flags:
  "classify ''a login form xxxxxxxxxxxxxxxxxxxxxxxxxxxxxxxxxxxxxxxxxxxxxxxxxxxxxxxxxxxxxxxxxxx first ending'' =
   classify ''a login form xxxxxxxxxxxxxxxxxxxxxxxxxxxxxxxxxxxxxxxxxxxxxxxxxxxxxxxxxxxxxxxxxxx second ending''"
  by code_simp

theorem prompt_only_through_flags_and_caption_witness:
  "''a login form xxxxxxxxxxxxxxxxxxxxxxxxxxxxxxxxxxxxxxxxxxxxxxxxxxxxxxxxxxxxxxxxxxx first ending'' \<noteq>
   ''a login form xxxxxxxxxxxxxxxxxxxxxxxxxxxxxxxxxxxxxxxxxxxxxxxxxxxxxxxxxxxxxxxxxxx second ending'' \<and>
   generate_sketch_svg (demo_runtime 1)
     ''a login form xxxxxxxxxxxxxxxxxxxxxxxxxxxxxxxxxxxxxxxxxxxxxxxxxxxxxxxxxxxxxxxxxxx first ending'' 800 500 (Some 7) ''slate'' =
   generate_sketch_svg (demo_runtime 1)
     ''a login form xxxxxxxxxxxxxxxxxxxxxxxxxxxxxxxxxxxxxxxxxxxxxxxxxxxxxxxxxxxxxxxxxxx second ending'' 800 500 (Some 7) ''slate''"
proof -
  have "(7::int) \<noteq> 0" by simp
  moreover have "take 80 ''a login form xxxxxxxxxxxxxxxxxxxxxxxxxxxxxxxxxxxxxxxxxxxxxxxxxxxxxxxxxxxxxxxxxxx first ending'' =
                 take 80 ''a login form xxxxxxxxxxxxxxxxxxxxxxxxxxxxxxxxxxxxxxxxxxxxxxxxxxxxxxxxxxxxxxxxxxx second ending''"
    by simp
  ultimately show ?thesis
    using prompt_only_through_flags_and_caption [OF _ long_prompts_same_flags, of 7 "demo_runtime 1" 800 500 "''slate''"]
    by simp
qed

subsection \<open>Helper lemmas: strings, primitives, numbers and the blocks\<close>

lemma py_range_2: "py_range 2 = [0, 1]"
  by (simp add: py_range_def range_step.simps)
lemma py_range_3: "py_range 3 = [0, 1, 2]"
  by (simp add: py_range_def range_step.simps)
lemma py_range_5: "py_range 5 = [0, 1, 2, 3, 4]"
  by (simp add: py_range_def range_step.simps)
lemma py_range_6: "py_range 6 = [0, 1, 2, 3, 4, 5]"
  by (simp add: py_range_def range_step.simps)

lemma contains_iff: "contains k p \<longleftrightarrow> (\<exists>u v. p = u @ k @ v)"
proof -
  have "contains k p \<longleftrightarrow> sublist k p"
    by (induction p) (simp_all add: sublist_Cons_right)
  then show ?thesis
    by (simp add: sublist_def)
qed

lemma any_in_iff: "any_in ks p \<longleftrightarrow> (\<exists>k \<in> set ks. \<exists>u v. p = u @ k @ v)"
  by (simp add: any_in_def list_ex_iff contains_iff)

lemma replace_is_escape:
  "replace_char CHR ''>'' ''&gt;'' (replace_char CHR ''<'' ''&lt;'' s) = xml_escape s"
  by (induction s) (simp_all add: replace_char_def xml_escape_def)

lemma text_el_shape:
  assumes "text_el rt x y c col = Some t"
  shows "\<exists>pre. t = ''<text '' @ pre @ ''>'' @ xml_escape c @ ''</text>''"
  using assms
  by (auto simp: text_el_def replace_is_escape bind_eq_Some_conv)

lemma rough_line_body_Some:
  assumes "rough_line_body rt x1 y1 x2 y2 stroke i (segs, g) = Some r"
  shows "\<exists>t. fst r = segs @ [''<path'' @ t]"
  using assms
  by (auto simp: rough_line_body_def bind_eq_Some_conv)

lemma rough_line_starts:
  assumes "rough_line rt g x1 y1 x2 y2 stroke = Some (s, g')"
  shows "take 5 s = ''<path''"
proof -
  from assms obtain r1 r2 where
    r1: "rough_line_body rt x1 y1 x2 y2 stroke 0 ([], g) = Some r1" and
    r2: "rough_line_body rt x1 y1 x2 y2 stroke 1 r1 = Some r2" and
    s: "s = join nl (fst r2)"
    by (auto simp: rough_line_def py_range_2 bind_eq_Some_conv)
  from rough_line_body_Some [OF r1] obtain t1 where t1: "fst r1 = [''<path'' @ t1]" by auto
  from r2 have "rough_line_body rt x1 y1 x2 y2 stroke 1 (fst r1, snd r1) = Some r2" by simp
  from rough_line_body_Some [OF this] t1 obtain t2 where "fst r2 = [''<path'' @ t1, ''<path'' @ t2]"
    by auto
  with s show ?thesis by simp
qed

lemma take_append_lit: "take n a = l \<Longrightarrow> length l = n \<Longrightarrow> take n (a @ b) = l"
  by (metis append_eq_conv_conj append_take_drop_id append.assoc)

lemma rough_rect_starts:
  assumes "rough_rect rt g x y w h stroke fill = Some (s, g')"
  shows "take 5 s = ''<rect'' \<or> take 5 s = ''<path''"
  using assms
  by (auto simp: rough_rect_def bind_eq_Some_conv take_append_lit
      split: option.splits dest!: rough_line_starts)

lemma escape_no_markup: "CHR ''<'' \<notin> set (xml_escape s) \<and> CHR ''>'' \<notin> set (xml_escape s)"
  by (induction s) (simp_all add: xml_escape_def)

lemma after_last:
  assumes "c \<notin> set e"
  shows "rev (takeWhile (\<lambda>x. x \<noteq> c) (rev (p @ c # e))) = e"
proof -
  have "takeWhile (\<lambda>x. x \<noteq> c) (rev e @ c # rev p) = rev e"
    using assms by (subst takeWhile_append2) auto
  then show ?thesis by simp
qed

lemma label_suffix_iff:
  assumes "CHR ''>'' \<notin> set c'" "CHR ''>'' \<notin> set e"
  shows "suffix (''>'' @ c' @ t) (pre @ ''>'' @ e @ t) \<longleftrightarrow> c' = e"
proof
  assume "suffix (''>'' @ c' @ t) (pre @ ''>'' @ e @ t)"
  then have "suffix ((''>'' @ c') @ t) ((pre @ ''>'' @ e) @ t)" by simp
  then have "suffix (''>'' @ c') (pre @ ''>'' @ e)" by (simp only: same_suffix_suffix)
  then obtain u where "pre @ CHR ''>'' # e = u @ CHR ''>'' # c'" by (auto simp: suffix_def)
  then show "c' = e"
    by (metis after_last assms)
next
  assume "c' = e"
  then show "suffix (''>'' @ c' @ t) (pre @ ''>'' @ e @ t)"
    by (simp add: suffix_def)
qed

lemma text_el_label_iff:
  assumes "text_el rt x y c col = Some t" "CHR ''>'' \<notin> set c'"
  shows "is_label c' t \<longleftrightarrow> xml_escape c = c'"
proof -
  from text_el_shape [OF assms(1)] obtain pre where
    t: "t = (''<text '' @ pre) @ ''>'' @ xml_escape c @ ''</text>''" by auto
  have "prefix ''<text '' t" by (simp add: t)
  moreover have "suffix (''>'' @ c' @ ''</text>'') t \<longleftrightarrow> c' = xml_escape c"
    unfolding t by (rule label_suffix_iff [OF assms(2) conjunct2 [OF escape_no_markup]])
  ultimately show ?thesis by (auto simp: is_label_def)
qed

lemma rough_rect_not_label:
  assumes "rough_rect rt g x y w h stroke fill = Some (s, g')"
  shows "\<not> is_label c s"
proof
  assume "is_label c s"
  then have "prefix ''<text'' s" by (auto simp: is_label_def prefix_def)
  then have "take 5 s = ''<text''" by (auto simp: prefix_def)
  with rough_rect_starts [OF assms] show False by simp
qed

lemma classify_form_only:
  "classify ''a login form with a search button'' =
     \<lparr>wants_header = False, wants_list = False, wants_form = True, wants_cards = False,
      wants_chart = False, wants_avatar = False\<rparr>"
  by code_simp

lemma svg_open_starts: "svg_open w h = Some s \<Longrightarrow> take 5 s = ''<svg ''"
  by (auto simp: svg_open_def bind_eq_Some_conv)

lemma svg_open_not_label: "svg_open w h = Some s \<Longrightarrow> \<not> is_label c s"
  by (auto simp: is_label_def prefix_def dest!: svg_open_starts)

lemma plain_not_label:
  "\<not> is_label c (bg_rect b)" "\<not> is_label c ''</svg>''"
  by (simp_all add: is_label_def bg_rect_def)

lemma form_only_parts:
  assumes "generate_parts rt ''a login form with a search button'' width height seed theme = Some parts"
  shows "\<exists>pal otag r1 g1 t1 r2 g2 t2 r3 g3 cap.
    get_palette theme = Some pal \<and>
    svg_open width height = Some otag \<and>
    rough_rect rt (rng rt (seed_or_hash rt seed ''a login form with a search button''))
      (PInt 24) (PInt 24) (PInt (width - 48)) (PInt 120) (p_ink pal) (Some (p_accent pal)) = Some (r1, g1) \<and>
    text_el rt (PInt 40) (PInt 52) ''Input'' (p_ink pal) = Some t1 \<and>
    rough_rect rt g1 (PInt 36) (PInt 64) (PInt (width - 72)) (PInt 28) (p_ink pal) None = Some (r2, g2) \<and>
    text_el rt (PInt 40) (PInt 104) ''Button'' (p_ink pal) = Some t2 \<and>
    rough_rect rt g2 (PInt 36) (PInt 114) (PInt 120) (PInt 28) (p_ink pal) (Some (p_accent pal)) = Some (r3, g3) \<and>
    text_el rt (PInt 24) (PInt (height - 12)) ''Prompt: a login form with a search button'' (p_ink pal) = Some cap \<and>
    parts = [otag, bg_rect (p_bg pal), r1, t1, r2, t2, r3, cap, ''</svg>'']"
  using assms
  unfolding generate_parts_def classify_form_only
  by (simp add: run_if_def form_block_def append_rect_def append_text_def bind_eq_Some_conv Let_def
      split: prod.splits) blast

lemma form_parts_labels:
  assumes op: "svg_open width height = Some otag"
    and r1: "rough_rect rt g0 xa ya wa ha s1 f1 = Some (r1, g1)"
    and t1: "text_el rt x1 y1 ''Input'' c1 = Some t1"
    and r2: "rough_rect rt g1 xb yb wb hb s2 f2 = Some (r2, g2)"
    and t2: "text_el rt x2 y2 ''Button'' c2 = Some t2"
    and r3: "rough_rect rt g2 xc yc wc hc s3 f3 = Some (r3, g3)"
    and cap: "text_el rt x3 y3 ''Prompt: a login form with a search button'' c3 = Some cap"
    and parts: "parts = [otag, bg_rect b, r1, t1, r2, t2, r3, cap, ''</svg>'']"
  shows "count_labels ''Input'' parts = 1 \<and> count_labels ''Button'' parts = 1"
proof -
  note rects = rough_rect_not_label [OF r1] rough_rect_not_label [OF r2] rough_rect_not_label [OF r3]
  have "is_label ''Input'' t1" "\<not> is_label ''Input'' t2" "\<not> is_label ''Input'' cap"
       "\<not> is_label ''Button'' t1" "is_label ''Button'' t2" "\<not> is_label ''Button'' cap"
    by (simp_all add: text_el_label_iff [OF t1] text_el_label_iff [OF t2] text_el_label_iff [OF cap]
        xml_escape_def)
  with rects show ?thesis
    by (simp add: count_labels_def parts plain_not_label svg_open_not_label [OF op])
qed

lemma form_only_labels:
  assumes "generate_parts rt ''a login form with a search button'' width height seed theme = Some parts"
  shows "count_labels ''Input'' parts = 1 \<and> count_labels ''Button'' parts = 1"
  using form_only_parts [OF assms]
  by (elim exE conjE) (rule form_parts_labels; assumption)


lemma fits_bound: "\<bar>n\<bar> \<le> float_bound + 1000 \<Longrightarrow> fits n"
proof -
  assume a: "\<bar>n\<bar> \<le> float_bound + 1000"
  have "(10::int) ^ 308 + 1000 < 2 ^ 1024 - 2 ^ 970" by simp
  with a have "\<bar>n\<bar> < 2 ^ 1024 - 2 ^ 970" by (simp add: float_bound_def)
  then have "\<bar>rat_of_int n\<bar> < rat_of_int (2 ^ 1024 - 2 ^ 970)"
    by (metis of_int_abs of_int_less_iff)
  then show ?thesis by (simp add: fits_def float_overflow_def)
qed

lemma float_bound_pos: "100000 \<le> float_bound"
  by (simp add: float_bound_def)

lemma fits_small: "\<bar>n\<bar> \<le> 1000 \<Longrightarrow> fits n"
  using fits_bound [of n] float_bound_pos by linarith

lemma fits_near: "\<bar>w\<bar> \<le> float_bound \<Longrightarrow> \<bar>k\<bar> \<le> 1000 \<Longrightarrow> fits (w + k)" "\<bar>w\<bar> \<le> float_bound \<Longrightarrow> \<bar>k\<bar> \<le> 1000 \<Longrightarrow> fits (w - k)"
   "\<bar>w\<bar> \<le> float_bound \<Longrightarrow> \<bar>k\<bar> \<le> 1000 \<Longrightarrow> fits (k + w)"
  by (rule fits_bound, linarith)+

lemma conv_simps [simp]: "conv (PInt n) = fits n" "conv (PFloat x)"
  by (simp_all add: conv_def)

lemma to_float_PFloat: "to_float rt (PFloat x) = Some x"
  by (simp add: to_float_def)

lemma to_float_PInt: "to_float rt (PInt n) = (if fits n then Some (rt_float rt (of_int n)) else None)"
  by (simp add: to_float_def fits_def)

lemma to_float_ok: "conv v \<Longrightarrow> to_float rt v \<noteq> None"
  by (cases v) (simp_all add: to_float_PInt to_float_PFloat)

lemma bind_the: "m \<noteq> None \<Longrightarrow> (m \<bind> f) = f (the m)"
  by (cases m) simp_all

lemma fmt_ok: "conv v \<Longrightarrow> fmt rt v \<noteq> None"
  by (simp add: fmt_def bind_the to_float_ok)

lemma jitter_ok: "conv val \<Longrightarrow> conv scale \<Longrightarrow> jitter rt g val scale \<noteq> None"
  by (simp add: jitter_def bind_the to_float_ok split: prod.splits)

lemma rough_line_body_ok:
  "conv x1 \<Longrightarrow> conv y1 \<Longrightarrow> conv x2 \<Longrightarrow> conv y2 \<Longrightarrow> rough_line_body rt x1 y1 x2 y2 stroke i s \<noteq> None"
  by (simp add: rough_line_body_def bind_the jitter_ok split: prod.splits)

lemma rough_line_ok:
  "conv x1 \<Longrightarrow> conv y1 \<Longrightarrow> conv x2 \<Longrightarrow> conv y2 \<Longrightarrow> rough_line rt g x1 y1 x2 y2 stroke \<noteq> None"
  by (simp add: rough_line_def py_range_2 bind_the rough_line_body_ok split: prod.splits)

lemma num_add_simps:
  "num_add rt (PInt m) (PInt n) = Some (PInt (m + n))"
  "num_add rt (PInt m) (PFloat y) = (if fits m then Some (PFloat (rt_float rt (of_int m) + y)) else None)"
  "num_add rt (PFloat x) (PInt n) = (if fits n then Some (PFloat (x + rt_float rt (of_int n))) else None)"
  "num_add rt (PFloat x) (PFloat y) = Some (PFloat (x + y))"
  by (simp_all add: num_add_def to_float_PInt to_float_PFloat)

lemma num_mul_simps:
  "num_mul rt (PInt m) (PInt n) = Some (PInt (m * n))"
  "num_mul rt (PInt m) (PFloat y) = (if fits m then Some (PFloat (rt_float rt (of_int m) * y)) else None)"
  "num_mul rt (PFloat x) (PInt n) = (if fits n then Some (PFloat (x * rt_float rt (of_int n))) else None)"
  "num_mul rt (PFloat x) (PFloat y) = Some (PFloat (x * y))"
  by (simp_all add: num_mul_def to_float_PInt to_float_PFloat)

lemma rough_rect_ok:
  assumes "conv x" "conv y" "conv w" "conv h"
    and "num_add rt x w = Some xw" "conv xw" "num_add rt y h = Some yh" "conv yh"
  shows "rough_rect rt g x y w h stroke fill \<noteq> None"
  using assms
  by (simp add: rough_rect_def bind_the fmt_ok rough_line_ok split: prod.splits option.splits)

lemma text_el_ok: "conv x \<Longrightarrow> conv y \<Longrightarrow> text_el rt x y c col \<noteq> None"
  by (simp add: text_el_def bind_the fmt_ok)

lemma rough_circle_point_ok:
  assumes "conv cx" "conv cy" "conv r" "fits a"
  shows "rough_circle_point rt cx cy r a s \<noteq> None"
proof -
  have f: "fits 0" "fits 2" by (simp_all add: fits_small)
  show ?thesis
    using assms f
    by (cases cx; cases cy; cases r)
       (simp_all add: rough_circle_point_def bind_the jitter_ok fmt_ok num_add_simps num_mul_simps
          to_float_PFloat split: prod.splits)
qed

lemma rough_rect_ok_int:
  assumes "fits x" "fits y" "fits w" "fits h" "fits (x + w)" "fits (y + h)"
  shows "rough_rect rt g (PInt x) (PInt y) (PInt w) (PInt h) stroke fill \<noteq> None"
  by (rule rough_rect_ok [where xw = "PInt (x + w)" and yh = "PInt (y + h)"])
     (simp_all add: assms num_add_simps)

lemma rough_rect_ok_mixed:
  assumes "fits y" "fits h" "fits (y + h)"
  shows "rough_rect rt g (PFloat x) (PInt y) (PFloat w) (PInt h) stroke fill \<noteq> None"
  by (rule rough_rect_ok [where xw = "PFloat (x + w)" and yh = "PInt (y + h)"])
     (simp_all add: assms num_add_simps)

lemma append_rect_the:
  "rough_rect rt (c_rnd st) x y w h stroke fill \<noteq> None \<Longrightarrow>
   append_rect rt x y w h stroke fill st =
     Some (st\<lparr>c_rnd := snd (the (rough_rect rt (c_rnd st) x y w h stroke fill)),
              c_parts := c_parts st @ [fst (the (rough_rect rt (c_rnd st) x y w h stroke fill))]\<rparr>)"
  by (auto simp: append_rect_def)

lemma append_line_the:
  "rough_line rt (c_rnd st) x1 y1 x2 y2 stroke \<noteq> None \<Longrightarrow>
   append_line rt x1 y1 x2 y2 stroke st =
     Some (st\<lparr>c_rnd := snd (the (rough_line rt (c_rnd st) x1 y1 x2 y2 stroke)),
              c_parts := c_parts st @ [fst (the (rough_line rt (c_rnd st) x1 y1 x2 y2 stroke))]\<rparr>)"
  by (auto simp: append_line_def)

lemma append_circle_the:
  "rough_circle rt (c_rnd st) cx cy r stroke fill \<noteq> None \<Longrightarrow>
   append_circle rt cx cy r stroke fill st =
     Some (st\<lparr>c_rnd := snd (the (rough_circle rt (c_rnd st) cx cy r stroke fill)),
              c_parts := c_parts st @ [fst (the (rough_circle rt (c_rnd st) cx cy r stroke fill))]\<rparr>)"
  by (auto simp: append_circle_def)

lemma append_text_the:
  "text_el rt x y c col \<noteq> None \<Longrightarrow>
   append_text rt x y c col st = Some (st\<lparr>c_parts := c_parts st @ [the (text_el rt x y c col)]\<rparr>)"
  by (auto simp: append_text_def)

lemmas draw_simps = append_rect_the append_line_the append_circle_the append_text_the
  rough_rect_ok_int rough_rect_ok_mixed rough_line_ok text_el_ok conv_simps fits_bound

lemma header_block_ok:
  assumes "\<bar>iw\<bar> \<le> float_bound + 100" "0 \<le> c_y st" "c_y st \<le> 5000"
  shows "\<exists>st'. header_block rt 24 iw ink accent st = Some st' \<and> c_y st' = c_y st + 80"
  using assms float_bound_pos
  by (simp add: header_block_def draw_simps)

lemma form_block_ok:
  assumes "\<bar>iw\<bar> \<le> float_bound + 100" "0 \<le> c_y st" "c_y st \<le> 5000"
  shows "\<exists>st'. form_block rt 24 iw ink accent st = Some st' \<and> c_y st' = c_y st + 140"
  using assms float_bound_pos
  by (simp add: form_block_def draw_simps)

lemma fallback_block_ok:
  assumes "\<bar>iw\<bar> \<le> float_bound + 100" "0 \<le> c_y st" "c_y st \<le> 5000"
  shows "\<exists>st'. fallback_block rt 24 iw ink accent st = Some st'"
  using assms float_bound_pos
  by (simp add: fallback_block_def draw_simps)


lemma rough_circle_pass_ok:
  assumes "conv cx" "conv cy" "conv r"
  shows "rough_circle_pass rt cx cy r stroke i s \<noteq> None"
proof -
  have "for_loop as (rough_circle_point rt cx cy r) p \<noteq> None" if "\<forall>a \<in> set as. fits a" for as p
    using that
  proof (induction as arbitrary: p)
    case Nil
    then show ?case by simp
  next
    case (Cons a as)
    then show ?case
      by (simp add: bind_the rough_circle_point_ok assms)
  qed
  moreover have "\<forall>a \<in> set (range_step 0 360 20). fits a"
    by (simp add: range_step.simps fits_small)
  ultimately show ?thesis
    by (simp add: rough_circle_pass_def bind_the split: prod.splits)
qed

lemma rough_circle_ok:
  assumes "conv cx" "conv cy" "conv r"
  shows "rough_circle rt g cx cy r stroke fill \<noteq> None"
  using assms
  by (simp add: rough_circle_def py_range_2 bind_the fmt_ok rough_circle_pass_ok
      split: prod.splits option.splits)

lemma avatar_block_ok:
  assumes "0 \<le> c_y st" "c_y st \<le> 5000"
  shows "\<exists>st'. avatar_block rt 24 ink accent st = Some st' \<and> c_y st' = c_y st + 72"
  using assms float_bound_pos
  by (simp add: avatar_block_def draw_simps rough_circle_ok)

lemma list_block_ok:
  assumes "\<bar>iw\<bar> \<le> float_bound + 100" "0 \<le> c_y st" "c_y st \<le> 5000"
  shows "\<exists>st'. list_block rt 24 iw ink st = Some st' \<and> c_y st' = c_y st + 180"
  using assms float_bound_pos
  by (simp add: list_block_def list_row_def py_range_5 draw_simps)

lemma for_loop_inv:
  assumes "\<And>i s. i \<in> set xs \<Longrightarrow> P s \<Longrightarrow> \<exists>s'. body i s = Some s' \<and> P s'" and "P s"
  shows "\<exists>s'. for_loop xs body s = Some s' \<and> P s'"
  using assms
proof (induction xs arbitrary: s)
  case Nil
  then show ?case by simp
next
  case (Cons i xs)
  from Cons.prems(1) [of i s] Cons.prems(2) obtain s1 where s1: "body i s = Some s1" "P s1"
    by auto
  from Cons.IH [of s1] Cons.prems(1) s1(2) obtain s2 where "for_loop xs body s1 = Some s2" "P s2"
    by auto
  with s1 show ?case by simp
qed

lemma truediv_no_overflow:
  assumes "fits m" "n \<noteq> 0"
  shows "\<not> float_overflow (of_int m / of_int n)"
proof -
  have "1 \<le> \<bar>rat_of_int n\<bar>" using assms(2)
    by (metis of_int_abs of_int_1_le_iff abs_ge_zero zero_less_abs_iff int_one_le_iff_zero_less)
  then have "\<bar>rat_of_int m / rat_of_int n\<bar> \<le> \<bar>rat_of_int m\<bar>"
    using assms(2) by (simp add: abs_divide divide_le_eq mult_le_cancel_left1)
  with assms(1) show ?thesis
    by (simp add: fits_def float_overflow_def)
qed

lemma num_truediv_simps:
  "fits m \<Longrightarrow> n \<noteq> 0 \<Longrightarrow>
     num_truediv rt (PInt m) (PInt n) = Some (PFloat (rt_float rt (of_int m / of_int n)))"
  "fits m \<Longrightarrow> num_truediv rt (PInt m) (PFloat y) = Some (PFloat (rt_float rt (of_int m) / y))"
  by (simp_all add: num_truediv_def truediv_no_overflow to_float_PInt to_float_PFloat)

lemma cards_cell_ok:
  assumes "0 \<le> c_y st" "c_y st \<le> 6000" "\<bar>c\<bar> \<le> 1000"
  shows "\<exists>st'. cards_cell rt 24 ink cols 14 (PFloat cw) 100 r c st = Some st' \<and> c_y st' = c_y st"
  using assms float_bound_pos
  by (simp add: cards_cell_def num_add_simps num_mul_simps draw_simps)

lemma cards_row_ok:
  assumes "0 \<le> c_y st" "c_y st \<le> 6000"
  shows "\<exists>st'. cards_row rt 24 ink 3 14 (PFloat cw) 100 r st = Some st' \<and> c_y st' = c_y st + 114"
proof -
  have step: "\<exists>s'. cards_cell rt 24 ink 3 14 (PFloat cw) 100 r c s = Some s' \<and> c_y s' = c_y st"
    if "c \<in> set (py_range 3)" "c_y s = c_y st" for c s
    using cards_cell_ok [of s c rt ink 3 cw r] that assms by (auto simp: py_range_3)
  have "\<exists>s'. for_loop (py_range 3) (cards_cell rt 24 ink 3 14 (PFloat cw) 100 r) st = Some s' \<and>
          c_y s' = c_y st"
    by (rule for_loop_inv [where P = "\<lambda>s. c_y s = c_y st"]) (simp_all add: step)
  then show ?thesis
    by (auto simp: cards_row_def)
qed

lemma cards_block_ok:
  assumes "\<bar>iw\<bar> \<le> float_bound + 100" "0 \<le> c_y st" "c_y st \<le> 5000"
  shows "\<exists>st'. cards_block rt 24 iw ink st = Some st' \<and> c_y st' = c_y st + 236"
proof -
  have f: "fits (iw - 28)"
    using assms(1) float_bound_pos by (intro fits_bound) linarith
  obtain cw where cw: "num_truediv rt (PInt (iw - 28)) (PInt 3) = Some (PFloat cw)"
    using num_truediv_simps(1) [OF f, of 3 rt] by simp
  from cards_row_ok [of st rt ink cw 0] assms obtain s1 where
    s1: "cards_row rt 24 ink 3 14 (PFloat cw) 100 0 st = Some s1" "c_y s1 = c_y st + 114"
    by auto
  from cards_row_ok [of s1 rt ink cw 1] assms s1(2) obtain s2 where
    s2: "cards_row rt 24 ink 3 14 (PFloat cw) 100 1 s1 = Some s2" "c_y s2 = c_y st + 228"
    by auto
  show ?thesis
    by (simp add: cards_block_def cw py_range_2 s1 s2)
qed

lemma chart_bar_ok:
  assumes "randint_in_bounds rt" "0 \<le> c_y st" "c_y st \<le> 5000" "\<bar>i\<bar> \<le> 1000"
  shows "\<exists>st'. chart_bar rt 24 accent 160 (PFloat bw) i st = Some st' \<and> c_y st' = c_y st"
proof -
  obtain bar_h g' where rr: "rt_randint rt (c_rnd st) 40 130 = (bar_h, g')"
    by force
  from assms(1) have "40 \<le> fst (rt_randint rt (c_rnd st) 40 130) \<and> fst (rt_randint rt (c_rnd st) 40 130) \<le> 130"
    by (simp add: randint_in_bounds_def)
  then have "40 \<le> bar_h" "bar_h \<le> 130"
    by (simp_all add: rr)
  then show ?thesis
    using assms float_bound_pos
    by (simp add: chart_bar_def rr num_add_simps num_mul_simps draw_simps)
qed

lemma chart_block_ok:
  assumes "randint_in_bounds rt" "\<bar>iw\<bar> \<le> float_bound + 100" "0 \<le> c_y st" "c_y st \<le> 5000"
  shows "\<exists>st'. chart_block rt 24 iw ink accent st = Some st' \<and> c_y st' = c_y st + 180"
proof -
  have f: "fits iw" "fits 6"
    using assms(2) float_bound_pos by (auto intro!: fits_bound)
  obtain s0 where s0: "append_rect rt (PInt 24) (PInt (c_y st)) (PInt iw) (PInt 160) ink None st = Some s0"
    "c_y s0 = c_y st"
    using assms float_bound_pos by (simp add: draw_simps)
  have loop: "\<exists>s'. for_loop (py_range 6) (chart_bar rt 24 accent 160 (PFloat bw)) s0 = Some s' \<and> c_y s' = c_y s0"
    for bw
  proof -
    have step: "\<exists>s'. chart_bar rt 24 accent 160 (PFloat bw) i s = Some s' \<and> c_y s' = c_y s0"
      if "i \<in> set (py_range 6)" "c_y s = c_y s0" for i s
      using chart_bar_ok [of rt s i accent bw] that assms s0(2) by (auto simp: py_range_6)
    show ?thesis
      by (rule for_loop_inv [where P = "\<lambda>s. c_y s = c_y s0"]) (simp_all add: step)
  qed
  have l1: "for_loop (py_range 6) (chart_bar rt 24 accent 160 (PFloat bw)) s0 \<noteq> None" for bw
    using loop [of bw] by auto
  have l2: "c_y (the (for_loop (py_range 6) (chart_bar rt 24 accent 160 (PFloat bw)) s0)) = c_y st" for bw
    using loop [of bw] s0(2) by auto
  show ?thesis
    by (simp add: chart_block_def s0 f num_mul_simps num_truediv_simps bind_the l1 l2)
qed

subsection \<open>The layout as a loop over the wanted blocks\<close>

lemma for_loop_filter_Cons:
  "for_loop (filter P (x # xs)) body = (\<lambda>s. run_if (P x) (body x) s \<bind> for_loop (filter P xs) body)"
  by (rule ext) (simp add: run_if_def)

lemma for_loop_Nil: "for_loop [] body = Some"
  by (rule ext) simp

lemma generate_parts_layout:
  "generate_parts rt prompt width height seed theme = spec_layout rt prompt width height seed theme"
proof (cases "get_palette theme")
  case None
  then show ?thesis
    by (simp add: generate_parts_def spec_layout_def)
next
  case (Some pal)
  have loop: "for_loop (filter (wanted fl) block_order) (draw_block rt 24 iw ink accent) st =
    run_if (wants_header fl) (header_block rt 24 iw ink accent) st \<bind> (\<lambda>st.
    run_if (wants_avatar fl) (avatar_block rt 24 ink accent) st \<bind> (\<lambda>st.
    run_if (wants_form fl) (form_block rt 24 iw ink accent) st \<bind> (\<lambda>st.
    run_if (wants_cards fl) (cards_block rt 24 iw ink) st \<bind> (\<lambda>st.
    run_if (wants_list fl) (list_block rt 24 iw ink) st \<bind> (\<lambda>st.
    run_if (wants_chart fl) (chart_block rt 24 iw ink accent) st \<bind> (\<lambda>st.
    run_if (\<not> (wants_header fl \<or> wants_list fl \<or> wants_form fl \<or> wants_cards fl \<or>
                wants_chart fl \<or> wants_avatar fl))
      (fallback_block rt 24 iw ink accent) st))))))"
    for fl iw ink accent and st :: "'b canvas"
    unfolding block_order_def
    by (simp only: for_loop_filter_Cons Option.bind_assoc wanted.simps draw_block.simps
        filter.simps(1) for_loop_Nil Option.bind_lunit Option.bind_runit de_Morgan_disj)
  show ?thesis
    unfolding generate_parts_def spec_layout_def Some loop
    by (simp add: Let_def Option.bind_assoc)
qed

subsection \<open>The shape of the list of fragments\<close>

lemma append_rect_grows:
  "append_rect rt x y w h stroke fill st = Some st' \<Longrightarrow> \<exists>s. c_parts st' = c_parts st @ [s]"
  by (auto simp: append_rect_def bind_eq_Some_conv)

lemma append_line_grows:
  "append_line rt x1 y1 x2 y2 stroke st = Some st' \<Longrightarrow> \<exists>s. c_parts st' = c_parts st @ [s]"
  by (auto simp: append_line_def bind_eq_Some_conv)

lemma append_circle_grows:
  "append_circle rt cx cy r stroke fill st = Some st' \<Longrightarrow> \<exists>s. c_parts st' = c_parts st @ [s]"
  by (auto simp: append_circle_def bind_eq_Some_conv)

lemma append_text_grows:
  "append_text rt x y c col st = Some st' \<Longrightarrow> \<exists>s. c_parts st' = c_parts st @ [s]"
  by (auto simp: append_text_def bind_eq_Some_conv)

lemmas append_grows = append_rect_grows append_line_grows append_circle_grows append_text_grows

lemma for_loop_grows:
  assumes "\<And>i s s'. body i s = Some s' \<Longrightarrow> prefix (c_parts s) (c_parts s')"
    and "for_loop xs body s = Some s'"
  shows "prefix (c_parts s) (c_parts s')"
  using assms(2)
proof (induction xs arbitrary: s)
  case Nil
  then show ?case by simp
next
  case (Cons i xs)
  then obtain s1 where "body i s = Some s1" "for_loop xs body s1 = Some s'"
    by (auto simp: bind_eq_Some_conv)
  with assms(1) Cons.IH show ?case
    by (blast intro: prefix_order.trans)
qed

lemma header_block_grows:
  "header_block rt m iw ink accent st = Some st' \<Longrightarrow> prefix (c_parts st) (c_parts st')"
  by (auto simp: header_block_def bind_eq_Some_conv prefix_def dest!: append_grows)

lemma avatar_block_grows:
  "avatar_block rt m ink accent st = Some st' \<Longrightarrow> prefix (c_parts st) (c_parts st')"
  by (auto simp: avatar_block_def bind_eq_Some_conv prefix_def dest!: append_grows)

lemma form_block_grows:
  "form_block rt m iw ink accent st = Some st' \<Longrightarrow> prefix (c_parts st) (c_parts st')"
  by (auto simp: form_block_def bind_eq_Some_conv prefix_def dest!: append_grows)

lemma fallback_block_grows:
  "fallback_block rt m iw ink accent st = Some st' \<Longrightarrow> prefix (c_parts st) (c_parts st')"
  by (auto simp: fallback_block_def bind_eq_Some_conv prefix_def dest!: append_grows)

lemma cards_cell_grows:
  "cards_cell rt m ink cols gap cw ch r c st = Some st' \<Longrightarrow> prefix (c_parts st) (c_parts st')"
  by (auto simp: cards_cell_def bind_eq_Some_conv prefix_def dest!: append_grows)

lemma cards_row_grows:
  assumes "cards_row rt m ink cols gap cw ch r st = Some st'"
  shows "prefix (c_parts st) (c_parts st')"
proof -
  from assms obtain s1 where
    "for_loop (py_range cols) (cards_cell rt m ink cols gap cw ch r) st = Some s1"
    "c_parts st' = c_parts s1"
    by (auto simp: cards_row_def bind_eq_Some_conv)
  then show ?thesis
    using for_loop_grows [where body = "cards_cell rt m ink cols gap cw ch r"] cards_cell_grows
    by metis
qed

lemma cards_block_grows:
  assumes "cards_block rt m iw ink st = Some st'"
  shows "prefix (c_parts st) (c_parts st')"
proof -
  from assms obtain cw s1 where
    "for_loop (py_range 2) (cards_row rt m ink 3 14 cw 100) st = Some s1"
    "c_parts st' = c_parts s1"
    by (auto simp: cards_block_def bind_eq_Some_conv Let_def)
  then show ?thesis
    using for_loop_grows [where body = "cards_row rt m ink 3 14 cw 100"] cards_row_grows
    by metis
qed

lemma list_row_grows:
  "list_row rt m iw ink lh i st = Some st' \<Longrightarrow> prefix (c_parts st) (c_parts st')"
  by (auto simp: list_row_def bind_eq_Some_conv prefix_def dest!: append_grows)

lemma list_block_grows:
  assumes "list_block rt m iw ink st = Some st'"
  shows "prefix (c_parts st) (c_parts st')"
proof -
  from assms obtain s0 s1 where
    "append_rect rt (PInt m) (PInt (c_y st)) (PInt iw) (PInt 160) ink None st = Some s0"
    "for_loop (py_range 5) (list_row rt m iw ink 28) s0 = Some s1"
    "c_parts st' = c_parts s1"
    by (auto simp: list_block_def bind_eq_Some_conv Let_def)
  moreover from this have "prefix (c_parts st) (c_parts s0)"
    by (auto simp: prefix_def dest!: append_grows)
  ultimately show ?thesis
    using for_loop_grows [where body = "list_row rt m iw ink 28"] list_row_grows
    by (metis prefix_order.trans)
qed

lemma chart_bar_grows:
  "chart_bar rt m accent ch bw i st = Some st' \<Longrightarrow> prefix (c_parts st) (c_parts st')"
  by (auto simp: chart_bar_def bind_eq_Some_conv prefix_def split: prod.splits dest!: append_grows)

lemma chart_block_grows:
  assumes "chart_block rt m iw ink accent st = Some st'"
  shows "prefix (c_parts st) (c_parts st')"
proof -
  from assms obtain s0 s1 bw where
    "append_rect rt (PInt m) (PInt (c_y st)) (PInt iw) (PInt 160) ink None st = Some s0"
    "for_loop (py_range 6) (chart_bar rt m accent 160 bw) s0 = Some s1"
    "c_parts st' = c_parts s1"
    by (auto simp: chart_block_def bind_eq_Some_conv Let_def)
  moreover from this have "prefix (c_parts st) (c_parts s0)"
    by (auto simp: prefix_def dest!: append_grows)
  ultimately show ?thesis
    using for_loop_grows [where body = "chart_bar rt m accent 160 bw"] chart_bar_grows
    by (metis prefix_order.trans)
qed

lemma draw_block_grows:
  "draw_block rt m iw ink accent b st = Some st' \<Longrightarrow> prefix (c_parts st) (c_parts st')"
  by (cases b)
     (simp_all add: header_block_grows avatar_block_grows form_block_grows cards_block_grows
        list_block_grows chart_block_grows fallback_block_grows)

lemma get_palette_total: "\<exists>pal. get_palette theme = Some pal"
  by (simp add: get_palette_def THEMES_def)

lemma join_append:
  "xs \<noteq> [] \<Longrightarrow> ys \<noteq> [] \<Longrightarrow> join sep (xs @ ys) = join sep xs @ sep @ join sep ys"
  by (induction sep xs rule: join.induct) (auto simp: neq_Nil_conv)

lemma caption_is_markup:
  assumes "text_el rt (PInt 24) (PInt (height - 12)) (''Prompt: '' @ take 80 prompt) ink = Some cap"
  shows "cap = caption_markup rt height ink prompt"
  using assms
  by (auto simp: text_el_def fmt_def to_float_def caption_markup_def replace_is_escape
      bind_eq_Some_conv xml_escape_def split: if_splits)

lemma generate_parts_shape:
  assumes "generate_parts rt prompt width height seed theme = Some parts"
  shows "\<exists>pal otag body cap. get_palette theme = Some pal \<and>
    svg_open width height = Some otag \<and>
    parts = [otag, bg_rect (p_bg pal)] @ body @ [cap, ''</svg>''] \<and>
    text_el rt (PInt 24) (PInt (height - 12)) (''Prompt: '' @ take 80 prompt) (p_ink pal) = Some cap"
proof -
  from assms [unfolded generate_parts_layout spec_layout_def] obtain pal otag st st' where
    pal: "get_palette theme = Some pal" and
    op: "svg_open width height = Some otag" and
    loop: "for_loop (filter (wanted (classify prompt)) block_order)
            (draw_block rt 24 (width - 48) (p_ink pal) (p_accent pal))
            \<lparr>c_rnd = rng rt (seed_or_hash rt seed prompt),
             c_parts = [otag, bg_rect (p_bg pal)], c_y = 24\<rparr> = Some st" and
    cap: "append_text rt (PInt 24) (PInt (height - 12)) (''Prompt: '' @ take 80 prompt) (p_ink pal) st = Some st'" and
    parts: "parts = c_parts st' @ [''</svg>'']"
    by (auto simp: bind_eq_Some_conv)
  have "prefix [otag, bg_rect (p_bg pal)] (c_parts st)"
    using for_loop_grows [where body = "draw_block rt 24 (width - 48) (p_ink pal) (p_accent pal)", OF _ loop]
      draw_block_grows by fastforce
  then obtain body where
    body: "c_parts st = [otag, bg_rect (p_bg pal)] @ body"
    by (auto simp: prefix_def)
  from cap obtain c where c: "text_el rt (PInt 24) (PInt (height - 12)) (''Prompt: '' @ take 80 prompt) (p_ink pal) = Some c"
    "c_parts st' = c_parts st @ [c]"
    by (auto simp: append_text_def bind_eq_Some_conv)
  show ?thesis
    using pal op c body parts by auto
qed

subsection \<open>Success of the render\<close>

lemma layout_chain:
  "for_loop (filter (wanted fl) block_order) (draw_block rt 24 iw ink accent) st =
    run_if (wants_header fl) (header_block rt 24 iw ink accent) st \<bind> (\<lambda>st.
    run_if (wants_avatar fl) (avatar_block rt 24 ink accent) st \<bind> (\<lambda>st.
    run_if (wants_form fl) (form_block rt 24 iw ink accent) st \<bind> (\<lambda>st.
    run_if (wants_cards fl) (cards_block rt 24 iw ink) st \<bind> (\<lambda>st.
    run_if (wants_list fl) (list_block rt 24 iw ink) st \<bind> (\<lambda>st.
    run_if (wants_chart fl) (chart_block rt 24 iw ink accent) st \<bind> (\<lambda>st.
    run_if (\<not> (wants_header fl \<or> wants_list fl \<or> wants_form fl \<or> wants_cards fl \<or>
                wants_chart fl \<or> wants_avatar fl))
      (fallback_block rt 24 iw ink accent) st))))))"
  unfolding block_order_def
  by (simp only: for_loop_filter_Cons Option.bind_assoc wanted.simps draw_block.simps
      filter.simps(1) for_loop_Nil Option.bind_lunit Option.bind_runit de_Morgan_disj)

lemma run_if_ok:
  assumes "b \<Longrightarrow> \<exists>st'. blk st = Some st' \<and> c_y st' = c_y st + d" and "0 \<le> d"
  shows "\<exists>st'. run_if b blk st = Some st' \<and> c_y st \<le> c_y st' \<and> c_y st' \<le> c_y st + d"
  using assms by (cases b) (auto simp: run_if_def)

lemma run_if_ok':
  assumes "b \<Longrightarrow> \<exists>st'. blk st = Some st'"
  shows "\<exists>st'. run_if b blk st = Some st'"
  using assms by (cases b) (auto simp: run_if_def)

lemma layout_ok:
  assumes rb: "randint_in_bounds rt" and iw: "\<bar>iw\<bar> \<le> float_bound + 100" and y0: "c_y st = 24"
  shows "\<exists>st'. for_loop (filter (wanted fl) block_order) (draw_block rt 24 iw ink accent) st = Some st'"
proof -
  have "\<exists>st'. header_block rt 24 iw ink accent st = Some st' \<and> c_y st' = c_y st + 80"
    by (rule header_block_ok [OF iw]) (use y0 in simp_all)
  then obtain s1 where
    s1: "run_if (wants_header fl) (header_block rt 24 iw ink accent) st = Some s1"
    "c_y st \<le> c_y s1" "c_y s1 \<le> c_y st + 80"
    using run_if_ok [where blk = "header_block rt 24 iw ink accent" and st = st and d = 80 and b = "wants_header fl"]
    by fastforce
  have "\<exists>st'. avatar_block rt 24 ink accent s1 = Some st' \<and> c_y st' = c_y s1 + 72"
    by (rule avatar_block_ok) (use s1 y0 in simp_all)
  then obtain s2 where
    s2: "run_if (wants_avatar fl) (avatar_block rt 24 ink accent) s1 = Some s2"
    "c_y s1 \<le> c_y s2" "c_y s2 \<le> c_y s1 + 72"
    using run_if_ok [where blk = "avatar_block rt 24 ink accent" and st = s1 and d = 72 and b = "wants_avatar fl"]
    by fastforce
  have "\<exists>st'. form_block rt 24 iw ink accent s2 = Some st' \<and> c_y st' = c_y s2 + 140"
    by (rule form_block_ok [OF iw]) (use s1 s2 y0 in simp_all)
  then obtain s3 where
    s3: "run_if (wants_form fl) (form_block rt 24 iw ink accent) s2 = Some s3"
    "c_y s2 \<le> c_y s3" "c_y s3 \<le> c_y s2 + 140"
    using run_if_ok [where blk = "form_block rt 24 iw ink accent" and st = s2 and d = 140 and b = "wants_form fl"]
    by fastforce
  have "\<exists>st'. cards_block rt 24 iw ink s3 = Some st' \<and> c_y st' = c_y s3 + 236"
    by (rule cards_block_ok [OF iw]) (use s1 s2 s3 y0 in simp_all)
  then obtain s4 where
    s4: "run_if (wants_cards fl) (cards_block rt 24 iw ink) s3 = Some s4"
    "c_y s3 \<le> c_y s4" "c_y s4 \<le> c_y s3 + 236"
    using run_if_ok [where blk = "cards_block rt 24 iw ink" and st = s3 and d = 236 and b = "wants_cards fl"]
    by fastforce
  have "\<exists>st'. list_block rt 24 iw ink s4 = Some st' \<and> c_y st' = c_y s4 + 180"
    by (rule list_block_ok [OF iw]) (use s1 s2 s3 s4 y0 in simp_all)
  then obtain s5 where
    s5: "run_if (wants_list fl) (list_block rt 24 iw ink) s4 = Some s5"
    "c_y s4 \<le> c_y s5" "c_y s5 \<le> c_y s4 + 180"
    using run_if_ok [where blk = "list_block rt 24 iw ink" and st = s4 and d = 180 and b = "wants_list fl"]
    by fastforce
  have "\<exists>st'. chart_block rt 24 iw ink accent s5 = Some st' \<and> c_y st' = c_y s5 + 180"
    by (rule chart_block_ok [OF rb iw]) (use s1 s2 s3 s4 s5 y0 in simp_all)
  then obtain s6 where
    s6: "run_if (wants_chart fl) (chart_block rt 24 iw ink accent) s5 = Some s6"
    "c_y s5 \<le> c_y s6" "c_y s6 \<le> c_y s5 + 180"
    using run_if_ok [where blk = "chart_block rt 24 iw ink accent" and st = s5 and d = 180 and b = "wants_chart fl"]
    by fastforce
  have "\<exists>st'. fallback_block rt 24 iw ink accent s6 = Some st'"
    by (rule fallback_block_ok [OF iw]) (use s1 s2 s3 s4 s5 s6 y0 in simp_all)
  then obtain s7 where
    s7: "run_if (\<not> (wants_header fl \<or> wants_list fl \<or> wants_form fl \<or> wants_cards fl \<or>
                wants_chart fl \<or> wants_avatar fl)) (fallback_block rt 24 iw ink accent) s6 = Some s7"
    using run_if_ok' [where blk = "fallback_block rt 24 iw ink accent" and st = s6]
    by fastforce
  show ?thesis
    unfolding layout_chain using s1(1) s2(1) s3(1) s4(1) s5(1) s6(1) s7 by simp
qed

lemma format_int_ok: "\<bar>n\<bar> \<le> float_bound \<Longrightarrow> format_int n = Some (str_int n)"
proof -
  assume a: "\<bar>n\<bar> \<le> float_bound"
  have "(10::int) ^ 308 < 10 ^ int_max_str_digits"
    unfolding int_max_str_digits_def by (rule power_strict_increasing) simp_all
  with a show ?thesis
    by (simp add: format_int_def float_bound_def)
qed

lemma svg_open_ok:
  "\<bar>width\<bar> \<le> float_bound \<Longrightarrow> \<bar>height\<bar> \<le> float_bound \<Longrightarrow> \<exists>s. svg_open width height = Some s"
  by (simp add: svg_open_def format_int_ok)

lemma generate_parts_ok:
  assumes "randint_in_bounds rt" "\<bar>width\<bar> \<le> float_bound" "\<bar>height\<bar> \<le> float_bound"
  shows "\<exists>parts. generate_parts rt prompt width height seed theme = Some parts"
proof -
  obtain pal where pal: "get_palette theme = Some pal"
    using get_palette_total by blast
  obtain otag where op: "svg_open width height = Some otag"
    using svg_open_ok [OF assms(2) assms(3)] by blast
  obtain st where st: "for_loop (filter (wanted (classify prompt)) block_order)
            (draw_block rt 24 (width - 48) (p_ink pal) (p_accent pal))
            \<lparr>c_rnd = rng rt (seed_or_hash rt seed prompt),
             c_parts = [otag, bg_rect (p_bg pal)], c_y = 24\<rparr> = Some st"
    using layout_ok [OF assms(1), of "width - 48"] assms(2) by fastforce
  have "text_el rt (PInt 24) (PInt (height - 12)) (''Prompt: '' @ take 80 prompt) (p_ink pal) \<noteq> None"
    using assms(3) float_bound_pos by (intro text_el_ok) (simp_all add: fits_bound)
  then show ?thesis
    by (simp add: generate_parts_layout spec_layout_def pal op st append_text_the)
qed

lemma demo_randint_in_bounds: "randint_in_bounds (demo_runtime salt)"
proof -
  have "a \<le> a + int n mod (b - a + 1) \<and> a + int n mod (b - a + 1) \<le> b" if "a \<le> b" for a b :: int and n
  proof -
    from that have "0 < b - a + 1" by simp
    then have "0 \<le> int n mod (b - a + 1)" "int n mod (b - a + 1) < b - a + 1"
      by (simp_all only: pos_mod_sign pos_mod_bound)
    then show ?thesis by linarith
  qed
  then show ?thesis
    by (simp add: randint_in_bounds_def demo_runtime_def demo_randint_def)
qed

lemma palette_accent: "get_palette theme = Some pal \<Longrightarrow> p_accent pal \<noteq> []"
  by (auto simp: get_palette_def THEMES_def split: if_splits)

lemma fits_iff: "fits n \<longleftrightarrow> \<bar>n\<bar> < 2 ^ 1024 - 2 ^ 970"
proof -
  have "rat_of_int (2 ^ 1024 - 2 ^ 970) \<le> \<bar>rat_of_int n\<bar> \<longleftrightarrow> 2 ^ 1024 - 2 ^ 970 \<le> \<bar>n\<bar>"
    by (metis of_int_abs of_int_le_iff)
  then show ?thesis
    by (simp add: fits_def float_overflow_def not_le)
qed

lemma overflow_raises:
  assumes "\<not> fits (width - 48)" and "wanted (classify prompt) BFallback"
  shows "generate_parts rt prompt width height seed theme = None"
proof -
  obtain pal where pal: "get_palette theme = Some pal"
    using get_palette_total by blast
  have "fits 24" by (simp add: fits_small)
  then have "rough_rect rt g (PInt 24) (PInt 24) (PInt (width - 48)) (PInt 60) ink (Some (p_accent pal)) = None"
    for g ink
    using assms(1) palette_accent [OF pal]
    by (simp add: rough_rect_def truthy_str_def fmt_def to_float_PInt)
  then show ?thesis
    using assms(2)
    by (cases "svg_open width height")
       (simp_all add: generate_parts_def pal run_if_def fallback_block_def append_rect_def)
qed

lemma classify_empty: "wanted (classify []) BFallback"
  by code_simp

lemma svg_open_value:
  assumes "\<bar>width\<bar> \<le> float_bound" "\<bar>height\<bar> \<le> float_bound"
  shows \<open>svg_open width height =
    Some (''<svg xmlns="http://www.w3.org/2000/svg" width="'' @ str_int width @ ''" height="'' @
          str_int height @ ''" viewBox="0 0 '' @ str_int width @ '' '' @ str_int height @ ''">'')\<close>
  by (simp add: svg_open_def format_int_ok [OF assms(1)] format_int_ok [OF assms(2)])

lemma join_Cons_starts: "\<exists>r. join sep (x # xs) = x @ r"
  by (cases xs) simp_all

lemma generate_sketch_svg_document:
  assumes "generate_sketch_svg rt prompt width height seed theme = Some out"
  shows "\<exists>pal otag body. get_palette theme = Some pal \<and> svg_open width height = Some otag \<and>
    out = otag @ nl @ bg_rect (p_bg pal) @ body @ nl @
          caption_markup rt height (p_ink pal) prompt @ nl @ ''</svg>''"
proof -
  from assms obtain parts where
    parts: "generate_parts rt prompt width height seed theme = Some parts" and out: "out = join nl parts"
    by (auto simp: generate_sketch_svg_def)
  from generate_parts_shape [OF parts] obtain pal otag body cap where
    pal: "get_palette theme = Some pal" and
    op: "svg_open width height = Some otag" and
    shape: "parts = [otag, bg_rect (p_bg pal)] @ body @ [cap, ''</svg>'']" and
    cap: "text_el rt (PInt 24) (PInt (height - 12)) (''Prompt: '' @ take 80 prompt) (p_ink pal) = Some cap"
    by blast
  obtain r where r: "join nl (bg_rect (p_bg pal) # body) = bg_rect (p_bg pal) @ r"
    using join_Cons_starts by blast
  have "join nl parts = otag @ nl @ join nl (bg_rect (p_bg pal) # body) @ nl @ cap @ nl @ ''</svg>''"
    unfolding shape
    using join_append [of "bg_rect (p_bg pal) # body" "[cap, ''</svg>'']" nl] by simp
  then have "out = otag @ nl @ bg_rect (p_bg pal) @ r @ nl @
      caption_markup rt height (p_ink pal) prompt @ nl @ ''</svg>''"
    using out caption_is_markup [OF cap] r by simp
  with pal op show ?thesis by blast
qed

subsection \<open>Success and failure of the render\<close>

text \<open>
  Claim C3, as amended. Where the library's \<^verbatim>\<open>randint\<close> stays in its bounds and the
  width and the height are at most \<open>10^308\<close> in absolute value, the render returns, for
  every prompt, seed and theme, also for an empty prompt, a width or height that is zero
  or negative and an unknown theme; what it returns opens with the \<^verbatim>\<open>svg\<close> tag of that
  width and height and closes with \<^verbatim>\<open></svg>\<close>.
\<close>

theorem render_succeeds_in_float_range:
  assumes "randint_in_bounds rt" and "\<bar>width\<bar> \<le> float_bound" and "\<bar>height\<bar> \<le> float_bound"
  shows \<open>\<exists>out body. generate_sketch_svg rt prompt width height seed theme = Some out \<and>
           out = ''<svg xmlns="http://www.w3.org/2000/svg" width="'' @ str_int width @ ''" height="'' @
                 str_int height @ ''" viewBox="0 0 '' @ str_int width @ '' '' @ str_int height @ ''">'' @
                 nl @ body @ nl @ ''</svg>''\<close>
proof -
  from generate_parts_ok [OF assms] obtain parts where
    "generate_parts rt prompt width height seed theme = Some parts" by blast
  then have out: "generate_sketch_svg rt prompt width height seed theme = Some (join nl parts)"
    by (simp add: generate_sketch_svg_def)
  from generate_sketch_svg_document [OF out] obtain pal otag body where
    pal: "get_palette theme = Some pal" and
    op: "svg_open width height = Some otag" and
    j: "join nl parts = otag @ nl @ bg_rect (p_bg pal) @ body @ nl @
          caption_markup rt height (p_ink pal) prompt @ nl @ ''</svg>''"
    by (elim exE conjE) (rule that; assumption)
  from op j have "join nl parts = the (svg_open width height) @ nl @ (bg_rect (p_bg pal) @ body @ nl @
          caption_markup rt height (p_ink pal) prompt) @ nl @ ''</svg>''"
    by simp
  with out show ?thesis
    unfolding svg_open_value [OF assms(2) assms(3)] option.sel
    by (metis append.assoc)
qed

theorem render_succeeds_in_float_range_witness:
  \<open>randint_in_bounds (demo_runtime 1) \<and> \<bar>0 :: int\<bar> \<le> float_bound \<and> \<bar>- 5 :: int\<bar> \<le> float_bound \<and>
   (\<exists>out body. generate_sketch_svg (demo_runtime 1) [] 0 (- 5) None ''unknown_xyz'' = Some out \<and>
      out = ''<svg xmlns="http://www.w3.org/2000/svg" width="'' @ str_int 0 @ ''" height="'' @
            str_int (- 5) @ ''" viewBox="0 0 '' @ str_int 0 @ '' '' @ str_int (- 5) @ ''">'' @
            nl @ body @ nl @ ''</svg>'')\<close>
proof -
  have b: "\<bar>0 :: int\<bar> \<le> float_bound" "\<bar>- 5 :: int\<bar> \<le> float_bound"
    using float_bound_pos by simp_all
  from render_succeeds_in_float_range [OF demo_randint_in_bounds b] b demo_randint_in_bounds
  show ?thesis by blast
qed

text \<open>
  Claim C3, as stated, fails: with the empty prompt and the width \<open>10^400\<close> the fallback
  block formats the inner width \<open>10^400 - 48\<close> with \<^verbatim>\<open>.1f\<close>, which raises
  \<^verbatim>\<open>OverflowError\<close>.
\<close>

theorem huge_width_raises:
  "generate_sketch_svg (demo_runtime 1) [] (10 ^ 400) 500 None ''slate'' = None"
proof -
  have "\<not> fits (10 ^ 400 - 48)"
    by (simp add: fits_iff)
  from overflow_raises [OF this classify_empty] show ?thesis
    by (simp add: generate_sketch_svg_def)
qed

subsection \<open>The caption\<close>

text \<open>
  Claim C7. Whatever the prompt, a document that the render returns ends with the caption
  and the closing tag: the caption is a text element at \<open>y = height - 12\<close>, filled with the
  ink colour of the palette, whose text is \<^verbatim>\<open>Prompt: \<close> and the first 80 characters of
  the prompt as given (not lower-cased), with \<^verbatim>\<open><\<close> written \<^verbatim>\<open>&lt;\<close> and \<^verbatim>\<open>>\<close> written
  \<^verbatim>\<open>&gt;\<close>; no raw \<^verbatim>\<open><\<close> or \<^verbatim>\<open>>\<close> is left in that text.
\<close>

theorem caption_closes_the_document:
  assumes "generate_sketch_svg rt prompt width height seed theme = Some out"
  shows "\<exists>pal body. get_palette theme = Some pal \<and>
           out = body @ nl @ caption_markup rt height (p_ink pal) prompt @ nl @ ''</svg>'' \<and>
           CHR ''<'' \<notin> set (xml_escape (take 80 prompt)) \<and>
           CHR ''>'' \<notin> set (xml_escape (take 80 prompt))"
proof -
  from generate_sketch_svg_document [OF assms] obtain pal otag body where
    pal: "get_palette theme = Some pal" and
    op: "svg_open width height = Some otag" and
    out: "out = otag @ nl @ bg_rect (p_bg pal) @ body @ nl @
          caption_markup rt height (p_ink pal) prompt @ nl @ ''</svg>''"
    by (elim exE conjE) (rule that; assumption)
  then have "out = (otag @ nl @ bg_rect (p_bg pal) @ body) @ nl @
      caption_markup rt height (p_ink pal) prompt @ nl @ ''</svg>''"
    by simp
  with pal escape_no_markup [of "take 80 prompt"] show ?thesis by blast
qed

lemma demo_render_returns:
  "\<bar>width\<bar> \<le> 100000 \<Longrightarrow> \<bar>height\<bar> \<le> 100000 \<Longrightarrow>
   \<exists>parts. generate_parts (demo_runtime salt) prompt width height seed theme = Some parts"
proof -
  assume "\<bar>width\<bar> \<le> 100000" "\<bar>height\<bar> \<le> 100000"
  with float_bound_pos have "\<bar>width\<bar> \<le> float_bound" "\<bar>height\<bar> \<le> float_bound"
    by linarith+
  then show ?thesis
    by (rule generate_parts_ok [OF demo_randint_in_bounds])
qed

theorem caption_closes_the_document_witness:
  "\<exists>out pal body.
     generate_sketch_svg (demo_runtime 1) ''<script>'' 800 500 (Some 7) ''sand'' = Some out \<and>
     get_palette ''sand'' = Some pal \<and>
     out = body @ nl @ caption_markup (demo_runtime 1) 500 (p_ink pal) ''<script>'' @ nl @ ''</svg>'' \<and>
     CHR ''<'' \<notin> set (xml_escape (take 80 ''<script>'')) \<and>
     CHR ''>'' \<notin> set (xml_escape (take 80 ''<script>''))"
proof -
  obtain parts where "generate_parts (demo_runtime 1) ''<script>'' 800 500 (Some 7) ''sand'' = Some parts"
    using demo_render_returns [of 800 500 1 "''<script>''" "Some 7" "''sand''"] by auto
  then have "generate_sketch_svg (demo_runtime 1) ''<script>'' 800 500 (Some 7) ''sand'' = Some (join nl parts)"
    by (simp add: generate_sketch_svg_def)
  from caption_closes_the_document [OF this] this show ?thesis
    by blast
qed

subsection \<open>Themes\<close>

lemma get_palette_values:
  "get_palette ''slate'' = Some \<lparr>p_bg = ''#0f172a'', p_ink = ''#93c5fd'', p_accent = ''#60a5fa''\<rparr>"
  "get_palette ''sand'' = Some \<lparr>p_bg = ''#f1f5f9'', p_ink = ''#0f172a'', p_accent = ''#64748b''\<rparr>"
  "theme \<noteq> ''slate'' \<Longrightarrow> theme \<noteq> ''sand'' \<Longrightarrow>
   get_palette theme = Some \<lparr>p_bg = ''#0f172a'', p_ink = ''#93c5fd'', p_accent = ''#60a5fa''\<rparr>"
  by (simp_all add: get_palette_def THEMES_def)

lemma unknown_theme_renders_as_slate:
  assumes "theme \<noteq> ''slate''" "theme \<noteq> ''sand''"
  shows "generate_sketch_svg rt prompt width height seed theme =
         generate_sketch_svg rt prompt width height seed ''slate''"
  unfolding generate_sketch_svg_def generate_parts_def
  by (simp only: get_palette_values(3) [OF assms] get_palette_values(1))

lemma document_background:
  assumes "generate_sketch_svg rt prompt width height seed theme = Some out"
  shows "\<exists>pal otag rest. get_palette theme = Some pal \<and> svg_open width height = Some otag \<and>
           out = otag @ nl @ bg_rect (p_bg pal) @ rest"
  using generate_sketch_svg_document [OF assms] by blast

text \<open>
  Claim C6. The palette that the render resolves for \<^verbatim>\<open>slate\<close> is background
  \<^verbatim>\<open>#0f172a\<close>, ink \<^verbatim>\<open>#93c5fd\<close>, accent \<^verbatim>\<open>#60a5fa\<close>; for \<^verbatim>\<open>sand\<close> it is background
  \<^verbatim>\<open>#f1f5f9\<close>, ink \<^verbatim>\<open>#0f172a\<close>, accent \<^verbatim>\<open>#64748b\<close>; these are the two entries of the
  table. A theme name that is not a key of the table resolves to the palette of
  \<^verbatim>\<open>slate\<close> and renders as \<^verbatim>\<open>slate\<close> does, for every prompt, width, height and seed; a
  document returned for it has the background of \<^verbatim>\<open>slate\<close> and its caption the ink of
  \<^verbatim>\<open>slate\<close>.
\<close>

theorem unknown_theme_is_slate:
  "get_palette ''slate'' = Some \<lparr>p_bg = ''#0f172a'', p_ink = ''#93c5fd'', p_accent = ''#60a5fa''\<rparr> \<and>
   get_palette ''sand'' = Some \<lparr>p_bg = ''#f1f5f9'', p_ink = ''#0f172a'', p_accent = ''#64748b''\<rparr> \<and>
   map_of THEMES ''slate'' = Some \<lparr>p_bg = ''#0f172a'', p_ink = ''#93c5fd'', p_accent = ''#60a5fa''\<rparr> \<and>
   map_of THEMES ''sand'' = Some \<lparr>p_bg = ''#f1f5f9'', p_ink = ''#0f172a'', p_accent = ''#64748b''\<rparr> \<and>
   fst ` set THEMES = {''slate'', ''sand''} \<and>
   (theme \<notin> fst ` set THEMES \<longrightarrow>
      get_palette theme = Some \<lparr>p_bg = ''#0f172a'', p_ink = ''#93c5fd'', p_accent = ''#60a5fa''\<rparr> \<and>
      generate_sketch_svg rt prompt width height seed theme =
      generate_sketch_svg rt prompt width height seed ''slate'' \<and>
      (\<forall>out. generate_sketch_svg rt prompt width height seed theme = Some out \<longrightarrow>
         (\<exists>otag body. svg_open width height = Some otag \<and>
            out = otag @ nl @ bg_rect ''#0f172a'' @ body @ nl @
                  caption_markup rt height ''#93c5fd'' prompt @ nl @ ''</svg>'')))"
proof -
  have keys: "fst ` set THEMES = {''slate'', ''sand''}"
    by (auto simp: THEMES_def)
  have unknown: "get_palette theme = Some \<lparr>p_bg = ''#0f172a'', p_ink = ''#93c5fd'', p_accent = ''#60a5fa''\<rparr> \<and>
      generate_sketch_svg rt prompt width height seed theme =
      generate_sketch_svg rt prompt width height seed ''slate'' \<and>
      (\<forall>out. generate_sketch_svg rt prompt width height seed theme = Some out \<longrightarrow>
         (\<exists>otag body. svg_open width height = Some otag \<and>
            out = otag @ nl @ bg_rect ''#0f172a'' @ body @ nl @
                  caption_markup rt height ''#93c5fd'' prompt @ nl @ ''</svg>''))"
    if "theme \<notin> fst ` set THEMES"
  proof -
    from that keys have ne: "theme \<noteq> ''slate''" "theme \<noteq> ''sand''"
      by auto
    note pal = get_palette_values(3) [OF ne]
    have "\<exists>otag body. svg_open width height = Some otag \<and>
            out = otag @ nl @ bg_rect ''#0f172a'' @ body @ nl @
                  caption_markup rt height ''#93c5fd'' prompt @ nl @ ''</svg>''"
      if "generate_sketch_svg rt prompt width height seed theme = Some out" for out
    proof -
      from generate_sketch_svg_document [OF that] obtain p otag body where
        p: "get_palette theme = Some p" and
        op: "svg_open width height = Some otag" and
        out: "out = otag @ nl @ bg_rect (p_bg p) @ body @ nl @
               caption_markup rt height (p_ink p) prompt @ nl @ ''</svg>''"
        by (elim exE conjE) (rule that; assumption)
      from p pal have "p = \<lparr>p_bg = ''#0f172a'', p_ink = ''#93c5fd'', p_accent = ''#60a5fa''\<rparr>"
        by simp
      then have "p_bg p = ''#0f172a''" "p_ink p = ''#93c5fd''"
        by simp_all
      with op out show ?thesis
        by (intro exI [of _ otag] exI [of _ body]) (simp only: simp_thms)
    qed
    then have doc: "\<forall>out. generate_sketch_svg rt prompt width height seed theme = Some out \<longrightarrow>
         (\<exists>otag body. svg_open width height = Some otag \<and>
            out = otag @ nl @ bg_rect ''#0f172a'' @ body @ nl @
                  caption_markup rt height ''#93c5fd'' prompt @ nl @ ''</svg>'')"
      by (intro allI impI)
    from pal unknown_theme_renders_as_slate [OF ne] doc show ?thesis
      by (intro conjI)
  qed
  have table: "map_of THEMES ''slate'' = Some \<lparr>p_bg = ''#0f172a'', p_ink = ''#93c5fd'', p_accent = ''#60a5fa''\<rparr>"
    "map_of THEMES ''sand'' = Some \<lparr>p_bg = ''#f1f5f9'', p_ink = ''#0f172a'', p_accent = ''#64748b''\<rparr>"
    by (simp_all add: THEMES_def)
  from unknown have "theme \<notin> fst ` set THEMES \<longrightarrow>
      get_palette theme = Some \<lparr>p_bg = ''#0f172a'', p_ink = ''#93c5fd'', p_accent = ''#60a5fa''\<rparr> \<and>
      generate_sketch_svg rt prompt width height seed theme =
      generate_sketch_svg rt prompt width height seed ''slate'' \<and>
      (\<forall>out. generate_sketch_svg rt prompt width height seed theme = Some out \<longrightarrow>
         (\<exists>otag body. svg_open width height = Some otag \<and>
            out = otag @ nl @ bg_rect ''#0f172a'' @ body @ nl @
                  caption_markup rt height ''#93c5fd'' prompt @ nl @ ''</svg>''))"
    by (rule impI)
  with get_palette_values(1) get_palette_values(2) table keys show ?thesis
    by (intro conjI)
qed

theorem unknown_theme_is_slate_witness:
  "''unknown_xyz'' \<notin> fst ` set THEMES \<and>
   get_palette ''unknown_xyz'' = Some \<lparr>p_bg = ''#0f172a'', p_ink = ''#93c5fd'', p_accent = ''#60a5fa''\<rparr> \<and>
   generate_sketch_svg (demo_runtime 1) ''a chart'' 800 500 (Some 3) ''unknown_xyz'' =
   generate_sketch_svg (demo_runtime 1) ''a chart'' 800 500 (Some 3) ''slate'' \<and>
   (\<exists>out otag body.
      generate_sketch_svg (demo_runtime 1) ''a chart'' 800 500 (Some 3) ''unknown_xyz'' = Some out \<and>
      svg_open 800 500 = Some otag \<and>
      out = otag @ nl @ bg_rect ''#0f172a'' @ body @ nl @
            caption_markup (demo_runtime 1) 500 ''#93c5fd'' ''a chart'' @ nl @ ''</svg>'')"
proof -
  have u: "''unknown_xyz'' \<notin> fst ` set THEMES"
    by (simp add: THEMES_def)
  obtain parts where "generate_parts (demo_runtime 1) ''a chart'' 800 500 (Some 3) ''unknown_xyz'' = Some parts"
    using demo_render_returns [of 800 500 1 "''a chart''" "Some 3" "''unknown_xyz''"] by auto
  then have r: "generate_sketch_svg (demo_runtime 1) ''a chart'' 800 500 (Some 3) ''unknown_xyz'' = Some (join nl parts)"
    by (simp add: generate_sketch_svg_def)
  note t = unknown_theme_is_slate [of "''unknown_xyz''" "demo_runtime 1" "''a chart''" 800 500 "Some 3"]
  note k = t [THEN conjunct2, THEN conjunct2, THEN conjunct2, THEN conjunct2, THEN conjunct2, THEN mp, OF u]
  have c: "get_palette ''unknown_xyz'' = Some \<lparr>p_bg = ''#0f172a'', p_ink = ''#93c5fd'', p_accent = ''#60a5fa''\<rparr>"
    "generate_sketch_svg (demo_runtime 1) ''a chart'' 800 500 (Some 3) ''unknown_xyz'' =
     generate_sketch_svg (demo_runtime 1) ''a chart'' 800 500 (Some 3) ''slate''"
    "\<forall>out. generate_sketch_svg (demo_runtime 1) ''a chart'' 800 500 (Some 3) ''unknown_xyz'' = Some out \<longrightarrow>
         (\<exists>otag body. svg_open 800 500 = Some otag \<and>
            out = otag @ nl @ bg_rect ''#0f172a'' @ body @ nl @
                  caption_markup (demo_runtime 1) 500 ''#93c5fd'' ''a chart'' @ nl @ ''</svg>'')"
    using k by (rule conjunct1, rule conjunct2 [THEN conjunct1], rule conjunct2 [THEN conjunct2])
  from c(3) [THEN spec, THEN mp, OF r] obtain otag body where
    op: "svg_open 800 500 = Some otag" and
    j: "join nl parts = otag @ nl @ bg_rect ''#0f172a'' @ body @ nl @
          caption_markup (demo_runtime 1) 500 ''#93c5fd'' ''a chart'' @ nl @ ''</svg>''"
    by (elim exE conjE) (rule that; assumption)
  have "\<exists>out otag body.
      generate_sketch_svg (demo_runtime 1) ''a chart'' 800 500 (Some 3) ''unknown_xyz'' = Some out \<and>
      svg_open 800 500 = Some otag \<and>
      out = otag @ nl @ bg_rect ''#0f172a'' @ body @ nl @
            caption_markup (demo_runtime 1) 500 ''#93c5fd'' ''a chart'' @ nl @ ''</svg>''"
    by (rule exI [of _ "join nl parts"], rule exI [of _ otag], rule exI [of _ body])
       (intro conjI r op j)
  with u c(1) c(2) show ?thesis
    by (intro conjI)
qed

subsection \<open>The flags\<close>

text \<open>
  Claim C4. Each flag holds exactly when the lower-cased prompt has one of the flag's
  keywords as a contiguous substring. The prompt \<^verbatim>\<open>a login form with a search button\<close>
  sets the form flag and no other, and the fragments of its render hold exactly one label
  \<^verbatim>\<open>Input\<close> and exactly one label \<^verbatim>\<open>Button\<close>.
\<close>

theorem flags_by_keyword_substring:
  "(wants_header (classify prompt) \<longleftrightarrow>
      (\<exists>k \<in> set [''header'', ''title'', ''navbar'', ''hero'']. \<exists>u v. lower prompt = u @ k @ v)) \<and>
   (wants_list (classify prompt) \<longleftrightarrow>
      (\<exists>k \<in> set [''list'', ''items'', ''menu'', ''sidebar'']. \<exists>u v. lower prompt = u @ k @ v)) \<and>
   (wants_form (classify prompt) \<longleftrightarrow>
      (\<exists>k \<in> set [''form'', ''input'', ''search'', ''login'', ''button'']. \<exists>u v. lower prompt = u @ k @ v)) \<and>
   (wants_cards (classify prompt) \<longleftrightarrow>
      (\<exists>k \<in> set [''cards'', ''grid'', ''gallery'', ''images'', ''thumbnails'', ''card''].
         \<exists>u v. lower prompt = u @ k @ v)) \<and>
   (wants_chart (classify prompt) \<longleftrightarrow>
      (\<exists>k \<in> set [''chart'', ''graph'', ''analytics'']. \<exists>u v. lower prompt = u @ k @ v)) \<and>
   (wants_avatar (classify prompt) \<longleftrightarrow>
      (\<exists>k \<in> set [''avatar'', ''profile'', ''user'']. \<exists>u v. lower prompt = u @ k @ v)) \<and>
   classify ''a login form with a search button'' =
     \<lparr>wants_header = False, wants_list = False, wants_form = True, wants_cards = False,
      wants_chart = False, wants_avatar = False\<rparr> \<and>
   (generate_parts rt ''a login form with a search button'' width height seed theme = Some parts \<longrightarrow>
      generate_sketch_svg rt ''a login form with a search button'' width height seed theme =
        Some (join nl parts) \<and>
      count_labels ''Input'' parts = 1 \<and> count_labels ''Button'' parts = 1)"
proof -
  have "wants_header (classify prompt) \<longleftrightarrow>
      (\<exists>k \<in> set [''header'', ''title'', ''navbar'', ''hero'']. \<exists>u v. lower prompt = u @ k @ v)"
    unfolding any_in_iff [symmetric] by (simp add: classify_def Let_def)
  moreover have "wants_list (classify prompt) \<longleftrightarrow>
      (\<exists>k \<in> set [''list'', ''items'', ''menu'', ''sidebar'']. \<exists>u v. lower prompt = u @ k @ v)"
    unfolding any_in_iff [symmetric] by (simp add: classify_def Let_def)
  moreover have "wants_form (classify prompt) \<longleftrightarrow>
      (\<exists>k \<in> set [''form'', ''input'', ''search'', ''login'', ''button'']. \<exists>u v. lower prompt = u @ k @ v)"
    unfolding any_in_iff [symmetric] by (simp add: classify_def Let_def)
  moreover have "wants_cards (classify prompt) \<longleftrightarrow>
      (\<exists>k \<in> set [''cards'', ''grid'', ''gallery'', ''images'', ''thumbnails'', ''card''].
         \<exists>u v. lower prompt = u @ k @ v)"
    unfolding any_in_iff [symmetric] by (simp add: classify_def Let_def)
  moreover have "wants_chart (classify prompt) \<longleftrightarrow>
      (\<exists>k \<in> set [''chart'', ''graph'', ''analytics'']. \<exists>u v. lower prompt = u @ k @ v)"
    unfolding any_in_iff [symmetric] by (simp add: classify_def Let_def)
  moreover have "wants_avatar (classify prompt) \<longleftrightarrow>
      (\<exists>k \<in> set [''avatar'', ''profile'', ''user'']. \<exists>u v. lower prompt = u @ k @ v)"
    unfolding any_in_iff [symmetric] by (simp add: classify_def Let_def)
  moreover note classify_form_only
  moreover have "generate_sketch_svg rt ''a login form with a search button'' width height seed theme =
        Some (join nl parts) \<and>
      count_labels ''Input'' parts = 1 \<and> count_labels ''Button'' parts = 1"
    if "generate_parts rt ''a login form with a search button'' width height seed theme = Some parts"
    using form_only_labels [OF that] that by (simp add: generate_sketch_svg_def)
  ultimately show ?thesis
    by blast
qed

theorem flags_by_keyword_substring_witness:
  "wants_form (classify ''a login form with a search button'') \<and>
   (\<exists>k \<in> set [''form'', ''input'', ''search'', ''login'', ''button''].
      \<exists>u v. lower ''a login form with a search button'' = u @ k @ v) \<and>
   (\<exists>parts. generate_parts (demo_runtime 1) ''a login form with a search button'' 800 500 (Some 7) ''slate'' =
        Some parts \<and>
      generate_sketch_svg (demo_runtime 1) ''a login form with a search button'' 800 500 (Some 7) ''slate'' =
        Some (join nl parts) \<and>
      count_labels ''Input'' parts = 1 \<and> count_labels ''Button'' parts = 1)"
proof -
  obtain parts where
    p: "generate_parts (demo_runtime 1) ''a login form with a search button'' 800 500 (Some 7) ''slate'' = Some parts"
    using demo_render_returns [of 800 500 1 "''a login form with a search button''" "Some 7" "''slate''"]
    by auto
  note t = flags_by_keyword_substring
      [of "''a login form with a search button''" "demo_runtime 1" 800 500 "Some 7" "''slate''" parts]
  note form = t [THEN conjunct2, THEN conjunct2, THEN conjunct1]
  note cls = t [THEN conjunct2, THEN conjunct2, THEN conjunct2, THEN conjunct2, THEN conjunct2,
      THEN conjunct2, THEN conjunct1]
  note lab = t [THEN conjunct2, THEN conjunct2, THEN conjunct2, THEN conjunct2, THEN conjunct2,
      THEN conjunct2, THEN conjunct2, THEN mp, OF p]
  have f: "wants_form (classify ''a login form with a search button'')"
    unfolding cls by simp
  with form have k: "\<exists>k \<in> set [''form'', ''input'', ''search'', ''login'', ''button''].
      \<exists>u v. lower ''a login form with a search button'' = u @ k @ v"
    by (rule iffD1)
  from p lab have "\<exists>parts. generate_parts (demo_runtime 1) ''a login form with a search button'' 800 500 (Some 7) ''slate'' =
        Some parts \<and>
      generate_sketch_svg (demo_runtime 1) ''a login form with a search button'' 800 500 (Some 7) ''slate'' =
        Some (join nl parts) \<and>
      count_labels ''Input'' parts = 1 \<and> count_labels ''Button'' parts = 1"
    by (intro exI [of _ parts] conjI) (elim conjE; assumption)+
  with f k show ?thesis
    by (intro conjI)
qed

subsection \<open>The order of the blocks\<close>


lemma block_order_complete: "set block_order = UNIV"
proof -
  have "b \<in> set block_order" for b
    by (cases b) (simp_all add: block_order_def)
  then show ?thesis by blast
qed

lemma wanted_blocks_set: "set (filter (wanted fl) block_order) = {b. wanted fl b}"
  by (simp add: block_order_complete)





subsection \<open>The rough circle\<close>

lemma range_angles: "range_step 0 360 20 = circle_angles"
  by (simp add: range_step.simps circle_angles_def upt_rec)

lemma circle_angles_list:
  "circle_angles = [0, 20, 40, 60, 80, 100, 120, 140, 160, 180, 200, 220, 240, 260, 280, 300, 320, 340]"
  by (simp add: circle_angles_def upt_rec)

lemma jitter_angle:
  "jitter rt g (PInt 0) (PInt 2) =
     Some (rt_float rt 0 + (fst (rt_random rt g) - rt_float rt (1 / 2)) * rt_float rt 2, snd (rt_random rt g))"
proof -
  have "fits 0" "fits 2" by (simp_all add: fits_small)
  then show ?thesis
    by (simp add: jitter_def to_float_PInt split: prod.splits)
qed

lemma jitter_radius:
  "jitter rt g (PInt 0) (PFloat s) =
     Some (rt_float rt 0 + (fst (rt_random rt g) - rt_float rt (1 / 2)) * s, snd (rt_random rt g))"
proof -
  have "fits 0" by (simp add: fits_small)
  then show ?thesis
    by (simp add: jitter_def to_float_PInt to_float_PFloat split: prod.splits)
qed

lemma circle_point_is_spec:
  "rough_circle_point rt cx cy r a (pts, g) =
     map_option (\<lambda>(p, g'). (pts @ [p], g')) (spec_circle_point rt cx cy r a g)"
  by (cases r; cases cx; cases cy)
     (simp_all add: rough_circle_point_def spec_circle_point_def jitter_angle jitter_radius
        num_add_simps num_mul_simps fmt_def to_float_PInt to_float_PFloat)

lemma circle_points_loop:
  "for_loop as (rough_circle_point rt cx cy r) (pts, g) =
     map_option (\<lambda>(ps, g'). (pts @ ps, g')) (spec_circle_points rt cx cy r as g)"
proof (induction as arbitrary: pts g)
  case Nil
  then show ?case by simp
next
  case (Cons a as)
  show ?case
    by (simp add: circle_point_is_spec Cons.IH split: Option.bind_split prod.splits)
qed

lemma circle_pass_is_spec:
  "rough_circle_pass rt cx cy r stroke i (parts, g) =
     map_option (\<lambda>(p, g'). (parts @ [p], g')) (spec_polyline rt cx cy r stroke g)"
  by (simp add: rough_circle_pass_def spec_polyline_def range_angles circle_points_loop
      split: Option.bind_split prod.splits)

lemma two_passes:
  "for_loop (py_range 2) (rough_circle_pass rt cx cy r stroke) (parts, g) =
     spec_polyline rt cx cy r stroke g \<bind> (\<lambda>p1.
     spec_polyline rt cx cy r stroke (snd p1) \<bind> (\<lambda>p2.
     Some (parts @ [fst p1, fst p2], snd p2)))"
proof (cases "spec_polyline rt cx cy r stroke g")
  case None
  then show ?thesis
    by (simp add: py_range_2 circle_pass_is_spec)
next
  case (Some p1)
  then show ?thesis
    by (cases "spec_polyline rt cx cy r stroke (snd p1)")
       (simp_all add: py_range_2 circle_pass_is_spec split_beta)
qed

lemma rough_circle_is_spec:
  "rough_circle rt g cx cy r stroke fill = spec_rough_circle rt g cx cy r stroke fill"
proof (cases "truthy_str fill")
  case None
  then show ?thesis
    by (simp add: rough_circle_def spec_rough_circle_def two_passes split_def Option.bind_assoc)
next
  case (Some c)
  then show ?thesis
    by (cases "fmt rt cx"; cases "fmt rt cy"; cases "fmt rt r")
       (simp_all add: rough_circle_def spec_rough_circle_def spec_filled_circle_def two_passes
          split_def Option.bind_assoc)
qed

lemma circle_points_length:
  "spec_circle_points rt cx cy r as g = Some (ps, g') \<Longrightarrow> length ps = length as"
proof (induction as arbitrary: ps g g')
  case Nil
  then show ?case by simp
next
  case (Cons a as)
  then show ?case
    by (auto simp: bind_eq_Some_conv)
qed

lemma spec_circle_points_ok:
  assumes "conv cx" "conv cy" "conv r"
  shows "\<exists>pts g'. spec_circle_points rt cx cy r circle_angles g = Some (pts, g')"
proof -
  have "rough_circle_pass rt cx cy r [] 0 ([], g) \<noteq> None"
    by (rule rough_circle_pass_ok [OF assms])
  then have "spec_polyline rt cx cy r [] g \<noteq> None"
    by (simp add: circle_pass_is_spec)
  then show ?thesis
    by (cases "spec_circle_points rt cx cy r circle_angles g") (auto simp: spec_polyline_def)
qed

text \<open>
  Claim C8. \<^verbatim>\<open>rough_circle\<close> emits, when \<^verbatim>\<open>fill\<close> is a string that is not empty, a
  \<^verbatim>\<open>circle\<close> element of opacity 0.1, and then two \<^verbatim>\<open>polyline\<close> elements of stroke width
  1.6 and opacity 0.9. Each polyline has exactly 18 points, one for each of the angles 0,
  20, ..., 340 in this order, the angle jittered with scale 2 and the radius with scale
  1.5. The list of points ends with the point of the angle 340: no point returns to the
  first one, so the polyline is open.
\<close>

theorem rough_circle_two_polylines:
  "rough_circle rt g cx cy r stroke fill = spec_rough_circle rt g cx cy r stroke fill \<and>
   range_step 0 360 20 = circle_angles \<and>
   circle_angles = [0, 20, 40, 60, 80, 100, 120, 140, 160, 180, 200, 220, 240, 260, 280, 300, 320, 340] \<and>
   (\<forall>pts g'. spec_circle_points rt cx cy r circle_angles g = Some (pts, g') \<longrightarrow> length pts = 18)"
proof -
  have "length pts = 18" if "spec_circle_points rt cx cy r circle_angles g = Some (pts, g')" for pts g'
    using circle_points_length [OF that] by (simp add: circle_angles_def)
  with rough_circle_is_spec [of rt g cx cy r stroke fill] range_angles circle_angles_list
  show ?thesis
    by blast
qed

theorem rough_circle_two_polylines_witness:
  "rough_circle (demo_runtime 1) 1 (PInt 56) (PInt 56) (PInt 24) ''#93c5fd'' (Some ''#60a5fa'') =
     spec_rough_circle (demo_runtime 1) 1 (PInt 56) (PInt 56) (PInt 24) ''#93c5fd'' (Some ''#60a5fa'') \<and>
   (\<exists>pts g'. spec_circle_points (demo_runtime 1) (PInt 56) (PInt 56) (PInt 24) circle_angles 1 = Some (pts, g') \<and>
      length pts = 18)"
proof -
  have c: "conv (PInt 56 :: rat pynum)" "conv (PInt 24 :: rat pynum)"
    by (simp_all add: fits_small)
  from spec_circle_points_ok [OF c(1) c(1) c(2), of "demo_runtime 1" 1] obtain pts g' where
    p: "spec_circle_points (demo_runtime 1) (PInt 56) (PInt 56) (PInt 24) circle_angles 1 = Some (pts, g')"
    by blast
  note t = rough_circle_two_polylines [of "demo_runtime 1" 1 "PInt 56" "PInt 56" "PInt 24" "''#93c5fd''" "Some ''#60a5fa''"]
  from t p have "length pts = 18"
    by blast
  with p t show ?thesis
    by blast
qed

subsection \<open>The built-in hash enters through the seed only\<close>


































end
